theory Spec2Isabelle
  imports Main "HOL-Library.AList"
begin

section \<open>Template documents\<close>

text \<open>
  A template is an already parsed JSON/YAML document: nested dicts, lists and scalars.
  A dict is an association list in insertion order (\<open>json.dumps\<close> and \<open>items()\<close> follow
  that order); \<open>AList.update\<close> is \<open>d[k] = v\<close>: it overwrites the value of an existing key
  in place and appends a new key at the end.  Documents are trees: two different places of
  a document never hold the same mutable object.  Numbers are integers, and a character is
  a code point below 256.
\<close>

datatype json =
    JNull
  | JBool bool
  | JInt int
  | JStr string
  | JList "json list"
  | JObj "(string \<times> json) list"

type_synonym dict = "(string \<times> json) list"

text \<open>The exceptions the module can raise on a document.\<close>

datatype error = AttributeError | TypeError

text \<open>A record handed to the logger: level, format string and arguments.\<close>

datatype log_level = INFO | WARNING

type_synonym log_record = "log_level \<times> string \<times> string list"

subsection \<open>Python primitives\<close>

text \<open>\<open>d.get(k, default)\<close>; \<open>d.get(k)\<close> is \<open>dict_get d k JNull\<close>.\<close>

definition dict_get :: "dict \<Rightarrow> string \<Rightarrow> json \<Rightarrow> json" where
  "dict_get d k dflt = (case map_of d k of None \<Rightarrow> dflt | Some v \<Rightarrow> v)"

text \<open>Truth value of an object, as tested by \<open>if x\<close>, \<open>and\<close>, \<open>or\<close>.\<close>

fun truthy :: "json \<Rightarrow> bool" where
  "truthy JNull = False"
| "truthy (JBool b) = b"
| "truthy (JInt i) = (i \<noteq> 0)"
| "truthy (JStr s) = (s \<noteq> [])"
| "truthy (JList xs) = (xs \<noteq> [])"
| "truthy (JObj d) = (d \<noteq> [])"

text \<open>\<open>isinstance(x, str) and x\<close>: the string itself when it holds.\<close>

fun nonempty_str :: "json \<Rightarrow> string option" where
  "nonempty_str (JStr s) = (if s = [] then None else Some s)"
| "nonempty_str _ = None"

text \<open>\<open>s.split(c)\<close> for a one-character separator; the result is never empty.\<close>

fun split_on :: "char \<Rightarrow> string \<Rightarrow> string list" where
  "split_on c [] = [[]]"
| "split_on c (x # xs) =
     (if x = c then [] # split_on c xs
      else (case split_on c xs of [] \<Rightarrow> [[x]] | w # ws \<Rightarrow> (x # w) # ws))"

definition startswith :: "string \<Rightarrow> string \<Rightarrow> bool" where
  "startswith s pre = (take (length pre) s = pre)"

definition endswith :: "string \<Rightarrow> string \<Rightarrow> bool" where
  "endswith s suf = (length suf \<le> length s \<and> drop (length s - length suf) s = suf)"

text \<open>\<open>sub in s\<close> on strings: \<open>sub\<close> occurs in \<open>s\<close> as a contiguous substring.\<close>

fun contains :: "string \<Rightarrow> string \<Rightarrow> bool" where
  "contains [] sub = (sub = [])"
| "contains (x # xs) sub = (take (length sub) (x # xs) = sub \<or> contains xs sub)"

text \<open>\<open>s.lower()\<close> on code points below 256: A-Z and the capital letters of Latin-1.\<close>

definition lower_char :: "char \<Rightarrow> char" where
  "lower_char c =
     (let n = (of_char c :: nat)
      in if (65 \<le> n \<and> n \<le> 90) \<or> (192 \<le> n \<and> n \<le> 214) \<or> (216 \<le> n \<and> n \<le> 222)
         then char_of (n + 32) else c)"

definition lower :: "string \<Rightarrow> string" where
  "lower s = map lower_char s"

text \<open>\<open>s.rfind(c)\<close>: the last index of \<open>c\<close>, or -1.\<close>

fun rfind_from :: "char \<Rightarrow> string \<Rightarrow> int \<Rightarrow> int \<Rightarrow> int" where
  "rfind_from c [] i found = found"
| "rfind_from c (x # xs) i found = rfind_from c xs (i + 1) (if x = c then i else found)"

definition rfind :: "string \<Rightarrow> char \<Rightarrow> int" where
  "rfind s c = rfind_from c s 0 (- 1)"

text \<open>\<open>sep.join(xs)\<close>.\<close>

fun join :: "string \<Rightarrow> string list \<Rightarrow> string" where
  "join sep [] = []"
| "join sep [x] = x"
| "join sep (x # y # ys) = x @ sep @ join sep (y # ys)"

subsection \<open>\<open>pathlib\<close> on a POSIX system\<close>

text \<open>
  A pure POSIX path after parsing: its root (\<open>''''\<close>, \<open>/\<close> or \<open>//\<close>) and its components,
  from which empty components and \<open>.\<close> are dropped.
\<close>

record pure_path =
  path_root :: string
  path_parts :: "string list"

definition splitroot :: "string \<Rightarrow> string \<times> string" where
  "splitroot part =
     (if part \<noteq> [] \<and> hd part = CHR ''/'' then
        (let stripped_part = dropWhile (\<lambda>c. c = CHR ''/'') part
         in if length part - length stripped_part = 2 then (''//'', stripped_part)
            else (''/'', stripped_part))
      else ('''', part))"

definition parse_part :: "string \<Rightarrow> pure_path" where
  "parse_part part =
     (let (root, rel) = splitroot part
      in \<lparr>path_root = root,
          path_parts = filter (\<lambda>x. x \<noteq> [] \<and> x \<noteq> ''.'') (split_on CHR ''/'' rel)\<rparr>)"

text \<open>\<open>p.joinpath(q)\<close>: a rooted \<open>q\<close> replaces \<open>p\<close>.\<close>

definition joinpath :: "pure_path \<Rightarrow> pure_path \<Rightarrow> pure_path" where
  "joinpath p q =
     (if path_root q \<noteq> [] then q
      else \<lparr>path_root = path_root p, path_parts = path_parts p @ path_parts q\<rparr>)"

text \<open>\<open>Path(a)\<close> and \<open>Path(a, b)\<close>.\<close>

definition Path :: "string \<Rightarrow> pure_path" where
  "Path a = parse_part a"

definition Path2 :: "string \<Rightarrow> string \<Rightarrow> pure_path" where
  "Path2 a b = joinpath (parse_part a) (parse_part b)"

definition path_name :: "pure_path \<Rightarrow> string" where
  "path_name p = (if path_parts p = [] then [] else last (path_parts p))"

definition path_stem :: "pure_path \<Rightarrow> string" where
  "path_stem p =
     (let name = path_name p; i = rfind name CHR ''.''
      in if 0 < i \<and> i < int (length name) - 1 then take (nat i) name else name)"

definition path_parent :: "pure_path \<Rightarrow> pure_path" where
  "path_parent p =
     (if path_parts p = [] then p
      else \<lparr>path_root = path_root p, path_parts = butlast (path_parts p)\<rparr>)"

definition path_str :: "pure_path \<Rightarrow> string" where
  "path_str p =
     (let s = path_root p @ join ''/'' (path_parts p) in if s = [] then ''.'' else s)"

subsection \<open>\<open>json.dumps\<close> with its default arguments\<close>

definition hex_digit :: "nat \<Rightarrow> char" where
  "hex_digit n = (if n < 10 then char_of (48 + n) else char_of (87 + n))"

text \<open>
  The escape of one character (\<open>ensure_ascii\<close>): everything outside the range from space
  to tilde, the double quote (code 34) and the backslash (code 92).
\<close>

definition escape_char :: "char \<Rightarrow> string" where
  "escape_char c =
     (let n = (of_char c :: nat)
      in if n = 92 then [char_of (92::nat), char_of (92::nat)]
         else if n = 34 then [char_of (92::nat), char_of (34::nat)]
         else if n = 8 then char_of (92::nat) # ''b''
         else if n = 12 then char_of (92::nat) # ''f''
         else if n = 10 then char_of (92::nat) # ''n''
         else if n = 13 then char_of (92::nat) # ''r''
         else if n = 9 then char_of (92::nat) # ''t''
         else if n < 32 \<or> 126 < n
           then char_of (92::nat) # ''u00'' @ [hex_digit (n div 16), hex_digit (n mod 16)]
         else [c])"

definition encode_str :: "string \<Rightarrow> string" where
  "encode_str s = char_of (34::nat) # concat (map escape_char s) @ [char_of (34::nat)]"

function dec_of_nat :: "nat \<Rightarrow> string" where
  "dec_of_nat n =
     (if n < 10 then [char_of (48 + n)] else dec_of_nat (n div 10) @ [char_of (48 + n mod 10)])"
  by pat_completeness auto
termination
  by (relation "measure (\<lambda>n. n)") auto

definition dec_of_int :: "int \<Rightarrow> string" where
  "dec_of_int i = (if i < 0 then CHR ''-'' # dec_of_nat (nat (- i)) else dec_of_nat (nat i))"

fun json_dumps :: "json \<Rightarrow> string"
  and dumps_items :: "json list \<Rightarrow> string list"
  and dumps_members :: "dict \<Rightarrow> string list" where
  "json_dumps JNull = ''null''"
| "json_dumps (JBool b) = (if b then ''true'' else ''false'')"
| "json_dumps (JInt i) = dec_of_int i"
| "json_dumps (JStr s) = encode_str s"
| "json_dumps (JList xs) = ''['' @ join '', '' (dumps_items xs) @ '']''"
| "json_dumps (JObj d) = ''{'' @ join '', '' (dumps_members d) @ ''}''"
| "dumps_items [] = []"
| "dumps_items (x # xs) = json_dumps x # dumps_items xs"
| "dumps_members [] = []"
| "dumps_members ((k, v) # d) = (encode_str k @ '': '' @ json_dumps v) # dumps_members d"

section \<open>The module \<open>resource_metadata_normalizer\<close>\<close>

definition RESOURCES_KEY :: string where "RESOURCES_KEY = ''Resources''"
definition PROPERTIES_KEY :: string where "PROPERTIES_KEY = ''Properties''"
definition METADATA_KEY :: string where "METADATA_KEY = ''Metadata''"
definition RESOURCE_CDK_PATH_METADATA_KEY :: string where
  "RESOURCE_CDK_PATH_METADATA_KEY = ''aws:cdk:path''"
definition ASSET_PATH_METADATA_KEY :: string where
  "ASSET_PATH_METADATA_KEY = ''aws:asset:path''"
definition ASSET_PROPERTY_METADATA_KEY :: string where
  "ASSET_PROPERTY_METADATA_KEY = ''aws:asset:property''"
definition IMAGE_ASSET_PROPERTY :: string where
  "IMAGE_ASSET_PROPERTY = ''Code.ImageUri''"
definition ASSET_DOCKERFILE_PATH_KEY :: string where
  "ASSET_DOCKERFILE_PATH_KEY = ''aws:asset:dockerfile-path''"
definition ASSET_DOCKERFILE_BUILD_ARGS_KEY :: string where
  "ASSET_DOCKERFILE_BUILD_ARGS_KEY = ''aws:asset:docker-build-args''"
definition SAM_RESOURCE_ID_KEY :: string where "SAM_RESOURCE_ID_KEY = ''SamResourceId''"
definition SAM_IS_NORMALIZED :: string where "SAM_IS_NORMALIZED = ''SamNormalized''"
definition SAM_METADATA_DOCKERFILE_KEY :: string where
  "SAM_METADATA_DOCKERFILE_KEY = ''Dockerfile''"
definition SAM_METADATA_DOCKER_CONTEXT_KEY :: string where
  "SAM_METADATA_DOCKER_CONTEXT_KEY = ''DockerContext''"
definition SAM_METADATA_DOCKER_BUILD_ARGS_KEY :: string where
  "SAM_METADATA_DOCKER_BUILD_ARGS_KEY = ''DockerBuildArgs''"
definition ASSET_BUNDLED_METADATA_KEY :: string where
  "ASSET_BUNDLED_METADATA_KEY = ''aws:asset:is-bundled''"
definition SAM_METADATA_SKIP_BUILD_KEY :: string where
  "SAM_METADATA_SKIP_BUILD_KEY = ''SkipBuild''"

lemmas key_defs =
  RESOURCES_KEY_def PROPERTIES_KEY_def METADATA_KEY_def RESOURCE_CDK_PATH_METADATA_KEY_def
  ASSET_PATH_METADATA_KEY_def ASSET_PROPERTY_METADATA_KEY_def IMAGE_ASSET_PROPERTY_def
  ASSET_DOCKERFILE_PATH_KEY_def ASSET_DOCKERFILE_BUILD_ARGS_KEY_def SAM_RESOURCE_ID_KEY_def
  SAM_IS_NORMALIZED_def SAM_METADATA_DOCKERFILE_KEY_def SAM_METADATA_DOCKER_CONTEXT_KEY_def
  SAM_METADATA_DOCKER_BUILD_ARGS_KEY_def ASSET_BUNDLED_METADATA_KEY_def
  SAM_METADATA_SKIP_BUILD_KEY_def

subsection \<open>\<open>_replace_property\<close>\<close>

text \<open>
  The loop over \<open>nested_keys\<close>: while more than one key is left, the first key is popped,
  a fresh empty dict is stored under it and becomes the target; the last key receives the
  value.  (\<open>split\<close> never returns an empty list; the first equation is there for totality.)
\<close>

fun set_nested :: "string list \<Rightarrow> json \<Rightarrow> dict \<Rightarrow> dict" where
  "set_nested [] property_value target_dict = target_dict"
| "set_nested [key] property_value target_dict = AList.update key property_value target_dict"
| "set_nested (key # nested_keys) property_value target_dict =
     AList.update key (JObj (set_nested nested_keys property_value [])) target_dict"

definition ignoring_metadata_msg :: string where
  "ignoring_metadata_msg =
     ''WARNING: Ignoring Metadata for Resource %s. Metadata contains only aws:asset:path or aws:assert:property but not both''"

text \<open>
  The resource dict itself is only read: the writes go to the object found under
  \<open>Properties\<close>.  When the key is absent, \<open>resource.get(PROPERTIES_KEY, {})\<close> is a new dict
  that the resource does not hold, and the writes are lost with it.
\<close>

definition replace_property ::
  "json \<Rightarrow> json \<Rightarrow> dict \<Rightarrow> string \<Rightarrow> error + (dict \<times> log_record list)" where
  "replace_property property_key property_value resource logical_id =
     (if truthy property_key \<and> truthy property_value then
        (case property_key of
           JStr pk \<Rightarrow>
             (let nested_keys = split_on CHR ''.'' pk
              in case map_of resource PROPERTIES_KEY of
                   None \<Rightarrow> Inr (resource, [])
                 | Some (JObj target_dict) \<Rightarrow>
                     Inr (AList.update PROPERTIES_KEY
                            (JObj (set_nested nested_keys property_value target_dict)) resource,
                          [])
                 | Some _ \<Rightarrow> Inl TypeError)
         | _ \<Rightarrow> Inl AttributeError)
      else if truthy property_key \<or> truthy property_value then
        Inr (resource, [(INFO, ignoring_metadata_msg, [logical_id])])
      else Inr (resource, []))"

subsection \<open>\<open>_extract_image_asset_metadata\<close> and \<open>_update_resource_metadata\<close>\<close>

text \<open>\<open>Path\<close> accepts strings only (no document value is path-like): anything else, also
  the \<open>None\<close> of an absent dockerfile path, raises \<open>TypeError\<close>.\<close>

definition extract_image_asset_metadata :: "dict \<Rightarrow> error + dict" where
  "extract_image_asset_metadata metadata =
     (case dict_get metadata ASSET_PATH_METADATA_KEY (JStr []) of
        JStr ap \<Rightarrow>
          (case dict_get metadata ASSET_DOCKERFILE_PATH_KEY JNull of
             JStr dp \<Rightarrow>
               (let asset_path = Path ap;
                    dockerfile_path = Path2 dp [];
                    dockerfile = path_stem dockerfile_path;
                    path_from_asset = path_parent dockerfile_path;
                    dockerfile_context = path_str (joinpath asset_path path_from_asset)
                in Inr [(SAM_METADATA_DOCKERFILE_KEY, JStr dockerfile),
                        (SAM_METADATA_DOCKER_CONTEXT_KEY, JStr dockerfile_context),
                        (SAM_METADATA_DOCKER_BUILD_ARGS_KEY,
                           dict_get metadata ASSET_DOCKERFILE_BUILD_ARGS_KEY (JObj []))])
           | _ \<Rightarrow> Inl TypeError)
      | _ \<Rightarrow> Inl TypeError)"

fun update_resource_metadata :: "dict \<Rightarrow> dict \<Rightarrow> dict" where
  "update_resource_metadata metadata [] = metadata"
| "update_resource_metadata metadata ((key, val) # updated_values) =
     update_resource_metadata (AList.update key val metadata) updated_values"

subsection \<open>\<open>normalize\<close>\<close>

text \<open>
  The asset rewrite of one resource (the body of \<open>if not is_normalized\<close>): the resource dict
  with its \<open>Properties\<close> object rewritten, the metadata object after its updates, and the
  records logged.
\<close>

definition asset_rewrite ::
  "string \<Rightarrow> dict \<Rightarrow> dict \<Rightarrow> error + (dict \<times> dict \<times> log_record list)" where
  "asset_rewrite logical_id resource resource_metadata =
     (let asset_property = dict_get resource_metadata ASSET_PROPERTY_METADATA_KEY JNull
      in case (if asset_property = JStr IMAGE_ASSET_PROPERTY then
                 (case extract_image_asset_metadata resource_metadata of
                    Inl e \<Rightarrow> Inl e
                  | Inr asset_metadata \<Rightarrow>
                      Inr (update_resource_metadata resource_metadata asset_metadata,
                           JStr (lower logical_id)))
               else Inr (resource_metadata,
                         dict_get resource_metadata ASSET_PATH_METADATA_KEY JNull)) of
           Inl e \<Rightarrow> Inl e
         | Inr (metadata1, asset_path) \<Rightarrow>
             (case replace_property asset_property asset_path resource logical_id of
                Inl e \<Rightarrow> Inl e
              | Inr (resource1, logs) \<Rightarrow>
                  Inr (resource1,
                       (if truthy asset_path \<and> truthy asset_property
                        then AList.update SAM_IS_NORMALIZED (JBool True) metadata1
                        else metadata1),
                       logs)))"

text \<open>
  One iteration of the loop over \<open>resources.items()\<close>.  The metadata object is the one the
  resource holds under \<open>Metadata\<close>; when the key is absent it is a new empty dict that the
  resource never receives.
\<close>

definition normalize_resource ::
  "string \<Rightarrow> json \<Rightarrow> error + (json \<times> log_record list)" where
  "normalize_resource logical_id resource =
     (case resource of
        JObj r \<Rightarrow>
          (case dict_get r METADATA_KEY (JObj []) of
             JObj resource_metadata \<Rightarrow>
               (case (if \<not> truthy (dict_get resource_metadata SAM_IS_NORMALIZED (JBool False))
                      then asset_rewrite logical_id r resource_metadata
                      else Inr (r, resource_metadata, [])) of
                  Inl e \<Rightarrow> Inl e
                | Inr (r1, metadata1, logs) \<Rightarrow>
                    (let skip_build = dict_get metadata1 ASSET_BUNDLED_METADATA_KEY (JBool False);
                         metadata2 =
                           (if truthy skip_build
                            then update_resource_metadata metadata1
                                   [(SAM_METADATA_SKIP_BUILD_KEY, JBool True)]
                            else metadata1)
                     in Inr (JObj (if map_of r METADATA_KEY = None then r1
                                   else AList.update METADATA_KEY (JObj metadata2) r1),
                             logs)))
           | _ \<Rightarrow> Inl AttributeError)
      | _ \<Rightarrow> Inl AttributeError)"

text \<open>The loop over the resources: the first exception ends it.\<close>

fun normalize_resources :: "dict \<Rightarrow> error + (dict \<times> log_record list)" where
  "normalize_resources [] = Inr ([], [])"
| "normalize_resources ((logical_id, resource) # rest) =
     (case normalize_resource logical_id resource of
        Inl e \<Rightarrow> Inl e
      | Inr (resource1, logs) \<Rightarrow>
          (case normalize_resources rest of
             Inl e \<Rightarrow> Inl e
           | Inr (rest1, logs1) \<Rightarrow> Inr ((logical_id, resource1) # rest1, logs @ logs1)))"

text \<open>The literal \<open>f'"Ref": "{parameter_name}"'\<close>.\<close>

definition ref_literal :: "string \<Rightarrow> string" where
  "ref_literal parameter_name =
     char_of (34::nat) # ''Ref'' @ [char_of (34::nat)] @ '': '' @ [char_of (34::nat)]
       @ parameter_name @ [char_of (34::nat)]"

text \<open>
  One iteration of the loop over \<open>parameters.items()\<close>.  The conjuncts are evaluated from
  left to right: \<open>"Default" not in parameter_value\<close> is a key test on a dict, a substring
  test on a string, a membership test on a list and a \<open>TypeError\<close> on anything else;
  \<open>parameter_value.get\<close> is reached only when that test holds, and exists on dicts only.
\<close>

definition normalize_parameter :: "string \<Rightarrow> string \<Rightarrow> json \<Rightarrow> error + json" where
  "normalize_parameter resources_as_string parameter_name parameter_value =
     (if startswith parameter_name ''AssetParameters'' then
        (case parameter_value of
           JObj pv \<Rightarrow>
             (if map_of pv ''Default'' = None
                 \<and> dict_get pv ''Type'' (JStr []) = JStr ''String''
                 \<and> \<not> contains resources_as_string (ref_literal parameter_name)
              then Inr (JObj (AList.update ''Default'' (JStr '' '') pv))
              else Inr parameter_value)
         | JStr s \<Rightarrow> (if \<not> contains s ''Default'' then Inl AttributeError else Inr parameter_value)
         | JList xs \<Rightarrow>
             (if JStr ''Default'' \<notin> set xs then Inl AttributeError else Inr parameter_value)
         | _ \<Rightarrow> Inl TypeError)
      else Inr parameter_value)"

fun normalize_parameters_loop :: "string \<Rightarrow> dict \<Rightarrow> error + dict" where
  "normalize_parameters_loop resources_as_string [] = Inr []"
| "normalize_parameters_loop resources_as_string ((parameter_name, parameter_value) # rest) =
     (case normalize_parameter resources_as_string parameter_name parameter_value of
        Inl e \<Rightarrow> Inl e
      | Inr parameter_value1 \<Rightarrow>
          (case normalize_parameters_loop resources_as_string rest of
             Inl e \<Rightarrow> Inl e
           | Inr rest1 \<Rightarrow> Inr ((parameter_name, parameter_value1) # rest1)))"

text \<open>
  \<open>normalize(template_dict, normalize_parameters)\<close> mutates the template and returns
  nothing; the model returns the template after the call and the records logged.
  \<open>is_cdk_project\<close> is imported from another module and is a parameter here; it is called
  on the template as the first loop left it.
\<close>

definition normalize ::
  "(json \<Rightarrow> bool) \<Rightarrow> json \<Rightarrow> bool \<Rightarrow> error + (json \<times> log_record list)" where
  "normalize is_cdk_project template_dict normalize_parameters =
     (case template_dict of
        JObj t \<Rightarrow>
          (case dict_get t RESOURCES_KEY (JObj []) of
             JObj resources \<Rightarrow>
               (case normalize_resources resources of
                  Inl e \<Rightarrow> Inl e
                | Inr (resources1, logs) \<Rightarrow>
                    (let t1 = (if map_of t RESOURCES_KEY = None then t
                               else AList.update RESOURCES_KEY (JObj resources1) t)
                     in if normalize_parameters \<and> is_cdk_project (JObj t1) then
                          (let resources_as_string = json_dumps (JObj resources1)
                           in case dict_get t1 ''Parameters'' (JObj []) of
                                JObj parameters \<Rightarrow>
                                  (case normalize_parameters_loop resources_as_string parameters of
                                     Inl e \<Rightarrow> Inl e
                                   | Inr parameters1 \<Rightarrow>
                                       Inr (JObj (if map_of t1 ''Parameters'' = None then t1
                                                  else AList.update ''Parameters''
                                                         (JObj parameters1) t1),
                                            logs))
                              | _ \<Rightarrow> Inl AttributeError)
                        else Inr (JObj t1, logs)))
           | _ \<Rightarrow> Inl AttributeError)
      | _ \<Rightarrow> Inl AttributeError)"

subsection \<open>\<open>get_resource_id\<close>\<close>

definition cannot_detect_msg :: string where
  "cannot_detect_msg =
     ''Cannot detect function id from aws:cdk:path metadata '' @ [char_of (39::nat)] @ ''%s''
       @ [char_of (39::nat)] @ '', using default logical id''"

definition get_resource_id :: "json \<Rightarrow> string \<Rightarrow> error + (string \<times> log_record list)" where
  "get_resource_id resource_properties logical_id =
     (case resource_properties of
        JObj rp \<Rightarrow>
          (case dict_get rp ''Metadata'' (JObj []) of
             JObj resource_metadata \<Rightarrow>
               (case nonempty_str (dict_get resource_metadata SAM_RESOURCE_ID_KEY JNull) of
                  Some customer_defined_id \<Rightarrow> Inr (customer_defined_id, [])
                | None \<Rightarrow>
                    (case nonempty_str
                            (dict_get resource_metadata RESOURCE_CDK_PATH_METADATA_KEY JNull) of
                       None \<Rightarrow> Inr (logical_id, [])
                     | Some resource_cdk_path \<Rightarrow>
                         (let cdk_path_partitions = split_on CHR ''/'' resource_cdk_path
                          in if length cdk_path_partitions < 2 then
                               Inr (logical_id,
                                    [(WARNING, cannot_detect_msg, [resource_cdk_path])])
                             else
                               (let cdk_resource_id =
                                      cdk_path_partitions ! (length cdk_path_partitions - 2)
                                in if dict_get rp ''Type'' (JStr []) = JStr ''AWS::CloudFormation::Stack''
                                      \<and> endswith cdk_resource_id ''.NestedStack''
                                   then Inr (take (length cdk_resource_id - length ''.NestedStack'')
                                               cdk_resource_id, [])
                                   else Inr (cdk_resource_id, [])))))
           | _ \<Rightarrow> Inl AttributeError)
      | _ \<Rightarrow> Inl AttributeError)"

section \<open>Notions used to state the properties\<close>

text \<open>The resources of a template, the metadata and the properties of a resource, and the
  parameters of a template, read the way the module reads them.\<close>

definition template_resources :: "json \<Rightarrow> dict" where
  "template_resources template_dict =
     (case template_dict of
        JObj t \<Rightarrow> (case dict_get t RESOURCES_KEY (JObj []) of JObj rs \<Rightarrow> rs | _ \<Rightarrow> [])
      | _ \<Rightarrow> [])"

definition template_parameters :: "json \<Rightarrow> dict" where
  "template_parameters template_dict =
     (case template_dict of
        JObj t \<Rightarrow> (case dict_get t ''Parameters'' (JObj []) of JObj ps \<Rightarrow> ps | _ \<Rightarrow> [])
      | _ \<Rightarrow> [])"

definition metadata_of :: "json \<Rightarrow> dict" where
  "metadata_of resource =
     (case resource of
        JObj r \<Rightarrow> (case dict_get r METADATA_KEY (JObj []) of JObj md \<Rightarrow> md | _ \<Rightarrow> [])
      | _ \<Rightarrow> [])"

definition properties_of :: "json \<Rightarrow> json option" where
  "properties_of resource = (case resource of JObj r \<Rightarrow> map_of r PROPERTIES_KEY | _ \<Rightarrow> None)"

text \<open>The asset target property locator of a resource, and the asset path that goes with
  it: the lower-cased logical id for the image locator, the recorded asset path otherwise.\<close>

definition locator_of :: "json \<Rightarrow> json" where
  "locator_of resource = dict_get (metadata_of resource) ASSET_PROPERTY_METADATA_KEY JNull"

definition asset_path_of :: "string \<Rightarrow> json \<Rightarrow> json" where
  "asset_path_of logical_id resource =
     (if locator_of resource = JStr IMAGE_ASSET_PROPERTY then JStr (lower logical_id)
      else dict_get (metadata_of resource) ASSET_PATH_METADATA_KEY JNull)"

definition marked_normalized :: "json \<Rightarrow> bool" where
  "marked_normalized resource =
     truthy (dict_get (metadata_of resource) SAM_IS_NORMALIZED (JBool False))"

text \<open>Following a list of keys down nested dicts.\<close>

fun follow :: "string list \<Rightarrow> json \<Rightarrow> json option" where
  "follow [] v = Some v"
| "follow (k # ks) (JObj d) = (case map_of d k of None \<Rightarrow> None | Some v \<Rightarrow> follow ks v)"
| "follow (k # ks) _ = None"

text \<open>\<open>only_path ks v x\<close>: below \<open>x\<close> there is nothing but the path \<open>ks\<close> ending in \<open>v\<close>;
  every dict on the way holds exactly one key.\<close>

fun only_path :: "string list \<Rightarrow> json \<Rightarrow> json \<Rightarrow> bool" where
  "only_path [] v x = (x = v)"
| "only_path (k # ks) v (JObj [(k', y)]) = (k' = k \<and> only_path ks v y)"
| "only_path (k # ks) v _ = False"

text \<open>The records of a log whose only argument is the given logical id.\<close>

definition diagnostics_for :: "string \<Rightarrow> log_record list \<Rightarrow> log_record list" where
  "diagnostics_for logical_id logs = filter (\<lambda>r. snd (snd r) = [logical_id]) logs"

text \<open>A dict \<open>{"Ref": name}\<close> (possibly with further keys) occurs somewhere in a value.\<close>

fun has_ref :: "string \<Rightarrow> json \<Rightarrow> bool"
  and has_ref_items :: "string \<Rightarrow> json list \<Rightarrow> bool"
  and has_ref_members :: "string \<Rightarrow> dict \<Rightarrow> bool" where
  "has_ref n JNull = False"
| "has_ref n (JBool b) = False"
| "has_ref n (JInt i) = False"
| "has_ref n (JStr s) = False"
| "has_ref n (JList xs) = has_ref_items n xs"
| "has_ref n (JObj d) = has_ref_members n d"
| "has_ref_items n [] = False"
| "has_ref_items n (x # xs) = (has_ref n x \<or> has_ref_items n xs)"
| "has_ref_members n [] = False"
| "has_ref_members n ((k, v) # d) =
     ((k = ''Ref'' \<and> v = JStr n) \<or> has_ref n v \<or> has_ref_members n d)"

text \<open>The characters that \<open>json.dumps\<close> writes as they are: space to tilde, without
  the double quote and the backslash.\<close>

definition plain_char :: "char \<Rightarrow> bool" where
  "plain_char c =
     (let n = (of_char c :: nat) in 32 \<le> n \<and> n \<le> 126 \<and> n \<noteq> 34 \<and> n \<noteq> 92)"

subsection \<open>Auxiliary notions for the proofs\<close>

text \<open>The skip-build step at the end of a loop iteration, as a function of the metadata.\<close>

definition skip_build_pass :: "dict \<Rightarrow> dict" where
  "skip_build_pass md =
     (if truthy (dict_get md ASSET_BUNDLED_METADATA_KEY (JBool False))
      then update_resource_metadata md [(SAM_METADATA_SKIP_BUILD_KEY, JBool True)]
      else md)"

text \<open>What a template holds after the object under key \<open>k\<close> has been mutated into \<open>d\<close>:
  nothing changes when the key is absent, since the object was a default then.\<close>

definition set_entry :: "string \<Rightarrow> dict \<Rightarrow> dict \<Rightarrow> dict" where
  "set_entry k d t = (if map_of t k = None then t else AList.update k (JObj d) t)"

section \<open>Example templates\<close>

text \<open>Two instances of the detection predicate.\<close>

definition is_cdk_never :: "json \<Rightarrow> bool" where
  "is_cdk_never template_dict = False"

definition is_cdk_always :: "json \<Rightarrow> bool" where
  "is_cdk_always template_dict = True"

text \<open>A function whose \<open>Code\<close> property has two keys, with locator \<open>Code.S3Key\<close>.\<close>

definition ex_siblings_fn :: json where
  "ex_siblings_fn = JObj [
     (''Type'', JStr ''AWS::Lambda::Function''),
     (''Properties'', JObj [(''Code'', JObj [(''S3Bucket'', JStr ''b''), (''S3Key'', JStr ''old'')]),
                            (''Handler'', JStr ''app.handler'')]),
     (''Metadata'', JObj [(''aws:asset:path'', JStr ''assets/fn.zip''),
                          (''aws:asset:property'', JStr ''Code.S3Key'')])]"

definition ex_siblings_fn_normalized :: json where
  "ex_siblings_fn_normalized = JObj [
     (''Type'', JStr ''AWS::Lambda::Function''),
     (''Properties'', JObj [(''Code'', JObj [(''S3Key'', JStr ''assets/fn.zip'')]),
                            (''Handler'', JStr ''app.handler'')]),
     (''Metadata'', JObj [(''aws:asset:path'', JStr ''assets/fn.zip''),
                          (''aws:asset:property'', JStr ''Code.S3Key''),
                          (''SamNormalized'', JBool True)])]"

definition ex_siblings :: json where
  "ex_siblings = JObj [(''Resources'', JObj [(''Fn'', ex_siblings_fn)])]"

definition ex_siblings_normalized :: json where
  "ex_siblings_normalized = JObj [(''Resources'', JObj [(''Fn'', ex_siblings_fn_normalized)])]"

text \<open>A function with locator and asset path, and no \<open>Properties\<close>.\<close>

definition ex_no_properties :: json where
  "ex_no_properties =
     JObj [(''Resources'', JObj [(''Fn'', JObj [
        (''Type'', JStr ''AWS::Lambda::Function''),
        (''Metadata'', JObj [(''aws:asset:path'', JStr ''assets/fn.zip''),
                             (''aws:asset:property'', JStr ''Code.S3Key'')])])])]"

definition ex_no_properties_normalized :: json where
  "ex_no_properties_normalized =
     JObj [(''Resources'', JObj [(''Fn'', JObj [
        (''Type'', JStr ''AWS::Lambda::Function''),
        (''Metadata'', JObj [(''aws:asset:path'', JStr ''assets/fn.zip''),
                             (''aws:asset:property'', JStr ''Code.S3Key''),
                             (''SamNormalized'', JBool True)])])])]"





text \<open>An image function without a dockerfile path, followed by an ordinary function.\<close>

definition ex_image_no_dockerfile :: json where
  "ex_image_no_dockerfile =
     JObj [(''Resources'', JObj [
        (''ImgFn'', JObj [
           (''Type'', JStr ''AWS::Lambda::Function''),
           (''Properties'', JObj [(''PackageType'', JStr ''Image'')]),
           (''Metadata'', JObj [(''aws:asset:path'', JStr ''src/''),
                                (''aws:asset:property'', JStr ''Code.ImageUri'')])]),
        (''Fn'', JObj [
           (''Type'', JStr ''AWS::Lambda::Function''),
           (''Properties'', JObj [(''Handler'', JStr ''app.handler'')]),
           (''Metadata'', JObj [(''aws:asset:path'', JStr ''assets/fn.zip''),
                                (''aws:asset:property'', JStr ''Code.S3Key'')])])])]"

text \<open>An image function whose metadata holds the locator and no asset path.\<close>

definition ex_locator_only_image_fn :: json where
  "ex_locator_only_image_fn = JObj [
     (''Type'', JStr ''AWS::Lambda::Function''),
     (''Properties'', JObj [(''PackageType'', JStr ''Image'')]),
     (''Metadata'', JObj [(''aws:asset:property'', JStr ''Code.ImageUri''),
                          (''aws:asset:dockerfile-path'', JStr ''Dockerfile'')])]"

definition ex_locator_only_image_fn_normalized :: json where
  "ex_locator_only_image_fn_normalized = JObj [
     (''Type'', JStr ''AWS::Lambda::Function''),
     (''Properties'', JObj [(''PackageType'', JStr ''Image''),
                            (''Code'', JObj [(''ImageUri'', JStr ''myfn'')])]),
     (''Metadata'', JObj [(''aws:asset:property'', JStr ''Code.ImageUri''),
                          (''aws:asset:dockerfile-path'', JStr ''Dockerfile''),
                          (''Dockerfile'', JStr ''Dockerfile''),
                          (''DockerContext'', JStr ''.''),
                          (''DockerBuildArgs'', JObj []),
                          (''SamNormalized'', JBool True)])]"

definition ex_locator_only_image :: json where
  "ex_locator_only_image = JObj [(''Resources'', JObj [(''MyFn'', ex_locator_only_image_fn)])]"

definition ex_locator_only_image_normalized :: json where
  "ex_locator_only_image_normalized =
     JObj [(''Resources'', JObj [(''MyFn'', ex_locator_only_image_fn_normalized)])]"

text \<open>A function whose metadata holds the locator \<open>Code.S3Key\<close> and no asset path, and the
  same function already marked as normalized.\<close>

definition ex_locator_only_fn :: json where
  "ex_locator_only_fn = JObj [
     (''Type'', JStr ''AWS::Lambda::Function''),
     (''Properties'', JObj [(''Handler'', JStr ''app.handler'')]),
     (''Metadata'', JObj [(''aws:asset:property'', JStr ''Code.S3Key'')])]"

definition ex_locator_only :: json where
  "ex_locator_only = JObj [(''Resources'', JObj [(''Fn'', ex_locator_only_fn)])]"

definition ex_marked_locator_only :: json where
  "ex_marked_locator_only =
     JObj [(''Resources'', JObj [(''Fn'', JObj [
        (''Type'', JStr ''AWS::Lambda::Function''),
        (''Properties'', JObj [(''Handler'', JStr ''app.handler'')]),
        (''Metadata'', JObj [(''aws:asset:property'', JStr ''Code.S3Key''),
                             (''SamNormalized'', JBool True)])])])]"

text \<open>
  A synthesized template with three asset parameters, each referenced by the function:
  the first under \<open>Code\<close>, which the asset rewrite replaces; the second has a double quote
  in its name; the third is referenced from a property that the rewrite leaves alone.
\<close>

definition ex_quoted_name :: string where
  "ex_quoted_name = ''AssetParametersA'' @ [char_of (34::nat)] @ ''B''"

definition ex_cdk_fn :: json where
  "ex_cdk_fn = JObj [
     (''Type'', JStr ''AWS::Lambda::Function''),
     (''Properties'', JObj [
        (''Code'', JObj [(''S3Bucket'', JObj [(''Ref'', JStr ''AssetParametersFoo'')])]),
        (''Description'', JObj [(''Ref'', JStr ex_quoted_name)]),
        (''Role'', JObj [(''Ref'', JStr ''AssetParametersBar'')])]),
     (''Metadata'', JObj [(''aws:asset:path'', JStr ''asset.abc''),
                          (''aws:asset:property'', JStr ''Code'')])]"

definition ex_cdk_fn_normalized :: json where
  "ex_cdk_fn_normalized = JObj [
     (''Type'', JStr ''AWS::Lambda::Function''),
     (''Properties'', JObj [
        (''Code'', JStr ''asset.abc''),
        (''Description'', JObj [(''Ref'', JStr ex_quoted_name)]),
        (''Role'', JObj [(''Ref'', JStr ''AssetParametersBar'')])]),
     (''Metadata'', JObj [(''aws:asset:path'', JStr ''asset.abc''),
                          (''aws:asset:property'', JStr ''Code''),
                          (''SamNormalized'', JBool True)])]"

definition ex_cdk :: json where
  "ex_cdk = JObj [
     (''Resources'', JObj [(''Fn'', ex_cdk_fn)]),
     (''Parameters'', JObj [
        (''AssetParametersFoo'', JObj [(''Type'', JStr ''String'')]),
        (ex_quoted_name, JObj [(''Type'', JStr ''String'')]),
        (''AssetParametersBar'', JObj [(''Type'', JStr ''String'')])])]"

text \<open>\<open>ex_cdk\<close> after the loop over the resources, and after the whole call.\<close>

definition ex_cdk_rewritten :: json where
  "ex_cdk_rewritten = JObj [
     (''Resources'', JObj [(''Fn'', ex_cdk_fn_normalized)]),
     (''Parameters'', JObj [
        (''AssetParametersFoo'', JObj [(''Type'', JStr ''String'')]),
        (ex_quoted_name, JObj [(''Type'', JStr ''String'')]),
        (''AssetParametersBar'', JObj [(''Type'', JStr ''String'')])])]"

definition ex_cdk_normalized :: json where
  "ex_cdk_normalized = JObj [
     (''Resources'', JObj [(''Fn'', ex_cdk_fn_normalized)]),
     (''Parameters'', JObj [
        (''AssetParametersFoo'', JObj [(''Type'', JStr ''String''), (''Default'', JStr '' '')]),
        (ex_quoted_name, JObj [(''Type'', JStr ''String''), (''Default'', JStr '' '')]),
        (''AssetParametersBar'', JObj [(''Type'', JStr ''String'')])])]"

section \<open>Properties of \<open>get_resource_id\<close>\<close>

lemma split_on_nonempty: "split_on c s \<noteq> []"
  by (induction s) (auto split: list.splits)

lemma split_on_length_ge2: "2 \<le> length (split_on c s) \<Longrightarrow> s \<noteq> []"
  by (cases s) auto

lemma endswith_append: "endswith (b @ suf) suf"
  by (simp add: endswith_def)

text \<open>
  C6.  The precedence of \<open>get_resource_id\<close>, for a resource mapping whose \<open>Metadata\<close> is a
  mapping or absent: a non-empty string under \<open>SamResourceId\<close> is returned as it is,
  whatever the construct path; without one, the construct path \<open>StackA/FuncB/Resource\<close>
  gives \<open>FuncB\<close>, and any construct path with at least two segments gives its
  second-to-last segment (when the nested-stack rule does not apply to it); and the
  logical id is returned when the construct path is absent, not a string or empty, or has
  fewer than two segments.
\<close>

theorem get_resource_id_precedence:
  assumes "dict_get rp ''Metadata'' (JObj []) = JObj md"
  shows "(dict_get md SAM_RESOURCE_ID_KEY JNull = JStr cid \<and> cid \<noteq> []
            \<longrightarrow> get_resource_id (JObj rp) lid = Inr (cid, []))
    \<and> (nonempty_str (dict_get md SAM_RESOURCE_ID_KEY JNull) = None
         \<and> dict_get md RESOURCE_CDK_PATH_METADATA_KEY JNull = JStr ''StackA/FuncB/Resource''
            \<longrightarrow> get_resource_id (JObj rp) lid = Inr (''FuncB'', []))
    \<and> (nonempty_str (dict_get md SAM_RESOURCE_ID_KEY JNull) = None
         \<and> dict_get md RESOURCE_CDK_PATH_METADATA_KEY JNull = JStr p
         \<and> 2 \<le> length (split_on CHR ''/'' p)
         \<and> \<not> (dict_get rp ''Type'' (JStr []) = JStr ''AWS::CloudFormation::Stack''
               \<and> endswith (split_on CHR ''/'' p ! (length (split_on CHR ''/'' p) - 2))
                    ''.NestedStack'')
            \<longrightarrow> get_resource_id (JObj rp) lid
                  = Inr (split_on CHR ''/'' p ! (length (split_on CHR ''/'' p) - 2), []))
    \<and> (nonempty_str (dict_get md SAM_RESOURCE_ID_KEY JNull) = None
         \<and> nonempty_str (dict_get md RESOURCE_CDK_PATH_METADATA_KEY JNull) = None
            \<longrightarrow> get_resource_id (JObj rp) lid = Inr (lid, []))
    \<and> (nonempty_str (dict_get md SAM_RESOURCE_ID_KEY JNull) = None
         \<and> dict_get md RESOURCE_CDK_PATH_METADATA_KEY JNull = JStr q
         \<and> length (split_on CHR ''/'' q) < 2
            \<longrightarrow> (\<exists>logs. get_resource_id (JObj rp) lid = Inr (lid, logs)))"
proof -
  have funcb: "\<not> endswith ''FuncB'' ''.NestedStack''"
    by (simp add: endswith_def)
  show ?thesis
    using assms funcb
    by (auto simp add: get_resource_id_def Let_def dest: split_on_length_ge2
             split: option.splits)
qed

text \<open>One resource for each of the five cases.\<close>

theorem get_resource_id_precedence_witness:
  "get_resource_id (JObj [(''Metadata'', JObj [(''SamResourceId'', JStr ''my-id''),
        (''aws:cdk:path'', JStr ''StackA/FuncB/Resource'')])]) ''L'' = Inr (''my-id'', [])
   \<and> get_resource_id (JObj [(''Metadata'', JObj [(''SamResourceId'', JInt 7),
        (''aws:cdk:path'', JStr ''StackA/FuncB/Resource'')])]) ''L'' = Inr (''FuncB'', [])
   \<and> get_resource_id (JObj [(''Type'', JStr ''AWS::Lambda::Function''),
        (''Metadata'', JObj [(''aws:cdk:path'', JStr ''A/B/C/D'')])]) ''L'' = Inr (''C'', [])
   \<and> get_resource_id (JObj [(''Metadata'', JObj [(''aws:cdk:path'', JInt 3)])]) ''L''
        = Inr (''L'', [])
   \<and> (\<exists>logs. get_resource_id (JObj [(''Metadata'', JObj [(''aws:cdk:path'', JStr ''Resource'')])])
        ''L'' = Inr (''L'', logs))"
proof -
  have m1: "dict_get [(''Metadata'', JObj [(''SamResourceId'', JStr ''my-id''),
        (''aws:cdk:path'', JStr ''StackA/FuncB/Resource'')])] ''Metadata'' (JObj [])
      = JObj [(''SamResourceId'', JStr ''my-id''),
        (''aws:cdk:path'', JStr ''StackA/FuncB/Resource'')]"
    by (simp add: dict_get_def)
  have m2: "dict_get [(''Metadata'', JObj [(''SamResourceId'', JInt 7),
        (''aws:cdk:path'', JStr ''StackA/FuncB/Resource'')])] ''Metadata'' (JObj [])
      = JObj [(''SamResourceId'', JInt 7), (''aws:cdk:path'', JStr ''StackA/FuncB/Resource'')]"
    by (simp add: dict_get_def)
  have m3: "dict_get [(''Type'', JStr ''AWS::Lambda::Function''),
        (''Metadata'', JObj [(''aws:cdk:path'', JStr ''A/B/C/D'')])] ''Metadata'' (JObj [])
      = JObj [(''aws:cdk:path'', JStr ''A/B/C/D'')]"
    by (simp add: dict_get_def)
  have m4: "dict_get [(''Metadata'', JObj [(''aws:cdk:path'', JInt 3)])] ''Metadata'' (JObj [])
      = JObj [(''aws:cdk:path'', JInt 3)]"
    by (simp add: dict_get_def)
  have m5: "dict_get [(''Metadata'', JObj [(''aws:cdk:path'', JStr ''Resource'')])]
        ''Metadata'' (JObj []) = JObj [(''aws:cdk:path'', JStr ''Resource'')]"
    by (simp add: dict_get_def)
  have c1: "get_resource_id (JObj [(''Metadata'', JObj [(''SamResourceId'', JStr ''my-id''),
        (''aws:cdk:path'', JStr ''StackA/FuncB/Resource'')])]) ''L'' = Inr (''my-id'', [])"
    using get_resource_id_precedence [OF m1, of "''my-id''" "''L''" "[]" "[]"]
    by (simp add: dict_get_def key_defs)
  have c2: "get_resource_id (JObj [(''Metadata'', JObj [(''SamResourceId'', JInt 7),
        (''aws:cdk:path'', JStr ''StackA/FuncB/Resource'')])]) ''L'' = Inr (''FuncB'', [])"
    using get_resource_id_precedence [OF m2, of "[]" "''L''" "[]" "[]"]
    by (simp add: dict_get_def key_defs)
  have c3: "get_resource_id (JObj [(''Type'', JStr ''AWS::Lambda::Function''),
        (''Metadata'', JObj [(''aws:cdk:path'', JStr ''A/B/C/D'')])]) ''L'' = Inr (''C'', [])"
    using get_resource_id_precedence [OF m3, of "[]" "''L''" "''A/B/C/D''" "[]"]
    by (simp add: dict_get_def key_defs)
  have c4: "get_resource_id (JObj [(''Metadata'', JObj [(''aws:cdk:path'', JInt 3)])]) ''L''
        = Inr (''L'', [])"
    using get_resource_id_precedence [OF m4, of "[]" "''L''" "[]" "[]"]
    by (simp add: dict_get_def key_defs)
  have c5: "\<exists>logs. get_resource_id (JObj [(''Metadata'', JObj [(''aws:cdk:path'', JStr ''Resource'')])])
        ''L'' = Inr (''L'', logs)"
    using get_resource_id_precedence [OF m5, of "[]" "''L''" "[]" "''Resource''"]
    by (simp add: dict_get_def key_defs)
  from c1 c2 c3 c4 c5 show ?thesis by blast
qed

text \<open>
  C7, as the code has it.  For a resource mapping of type \<open>AWS::CloudFormation::Stack\<close> with
  no customer-defined id and a construct path of at least two segments whose second-to-last
  segment ends with \<open>.NestedStack\<close>, \<open>get_resource_id\<close> returns that segment without the
  suffix.
\<close>

theorem get_resource_id_nested_stack:
  assumes "dict_get rp ''Metadata'' (JObj []) = JObj md"
    and "nonempty_str (dict_get md SAM_RESOURCE_ID_KEY JNull) = None"
    and "dict_get md RESOURCE_CDK_PATH_METADATA_KEY JNull = JStr p"
    and "2 \<le> length (split_on CHR ''/'' p)"
    and "split_on CHR ''/'' p ! (length (split_on CHR ''/'' p) - 2) = base @ ''.NestedStack''"
    and "dict_get rp ''Type'' (JStr []) = JStr ''AWS::CloudFormation::Stack''"
  shows "get_resource_id (JObj rp) lid = Inr (base, [])"
proof -
  from assms(4) have "p \<noteq> []" by (rule split_on_length_ge2)
  moreover have "endswith (base @ ''.NestedStack'') ''.NestedStack''" by (rule endswith_append)
  ultimately show ?thesis using assms
    by (simp add: get_resource_id_def Let_def)
qed

text \<open>The nested stack of the specification's example.\<close>

theorem get_resource_id_nested_stack_witness:
  "get_resource_id (JObj [(''Type'', JStr ''AWS::CloudFormation::Stack''),
      (''Metadata'', JObj [(''aws:cdk:path'', JStr ''StackA/NestedStackC.NestedStack/Resource'')])]) ''L''
   = Inr (''NestedStackC'', [])"
  by (rule get_resource_id_nested_stack
        [where md = "[(''aws:cdk:path'', JStr ''StackA/NestedStackC.NestedStack/Resource'')]"
           and p = "''StackA/NestedStackC.NestedStack/Resource''"])
     (simp_all add: dict_get_def key_defs)

text \<open>
  Without the condition on the type the statement fails: a Lambda function whose
  second-to-last segment ends with \<open>.NestedStack\<close> keeps the suffix.
\<close>

theorem get_resource_id_suffix_kept_counterexample:
  "get_resource_id (JObj [(''Type'', JStr ''AWS::Lambda::Function''),
      (''Metadata'', JObj [(''aws:cdk:path'', JStr ''StackA/Foo.NestedStack/Resource'')])]) ''L''
   = Inr (''Foo.NestedStack'', [])
  \<and> get_resource_id (JObj [(''Type'', JStr ''AWS::Lambda::Function''),
      (''Metadata'', JObj [(''aws:cdk:path'', JStr ''StackA/Foo.NestedStack/Resource'')])]) ''L''
   \<noteq> Inr (''Foo'', [])"
  by (simp add: get_resource_id_def dict_get_def key_defs Let_def endswith_def)

text \<open>
  C10.  For a resource mapping with no customer-defined id whose construct path is a string
  with at least two segments and an empty second-to-last segment, \<open>get_resource_id\<close>
  returns the empty string, not the logical id.
\<close>

theorem get_resource_id_empty_segment:
  assumes "dict_get rp ''Metadata'' (JObj []) = JObj md"
    and "nonempty_str (dict_get md SAM_RESOURCE_ID_KEY JNull) = None"
    and "dict_get md RESOURCE_CDK_PATH_METADATA_KEY JNull = JStr p"
    and "2 \<le> length (split_on CHR ''/'' p)"
    and "split_on CHR ''/'' p ! (length (split_on CHR ''/'' p) - 2) = []"
  shows "get_resource_id (JObj rp) lid = Inr ([], [])"
proof -
  from assms(4) have "p \<noteq> []" by (rule split_on_length_ge2)
  with assms show ?thesis
    by (simp add: get_resource_id_def Let_def endswith_def)
qed

text \<open>The construct path \<open>/Resource\<close>.\<close>

theorem get_resource_id_empty_segment_witness:
  "get_resource_id (JObj [(''Type'', JStr ''AWS::Lambda::Function''),
      (''Metadata'', JObj [(''aws:cdk:path'', JStr ''/Resource'')])]) ''Fn'' = Inr ([], [])"
  by (rule get_resource_id_empty_segment
        [where md = "[(''aws:cdk:path'', JStr ''/Resource'')]" and p = "''/Resource''"])
     (simp_all add: dict_get_def key_defs)

section \<open>Basic facts\<close>

subsection \<open>Dicts and paths of keys\<close>

lemma dict_get_update:
  "dict_get (AList.update k v d) k' dflt = (if k' = k then v else dict_get d k' dflt)"
  by (simp add: dict_get_def AList.update_conv')

lemma map_of_update:
  "map_of (AList.update k v d) k' = (if k' = k then Some v else map_of d k')"
  by (simp add: AList.update_conv')

lemma follow_set_nested:
  "ks \<noteq> [] \<Longrightarrow> follow ks (JObj (set_nested ks v d)) = Some v"
proof (induction ks v d rule: set_nested.induct)
  case (1 v d)
  then show ?case by simp
next
  case (2 k v d)
  then show ?case by (simp add: map_of_update)
next
  case (3 k k' ks v d)
  then show ?case by (simp add: map_of_update)
qed

lemma only_path_set_nested:
  "ks \<noteq> [] \<Longrightarrow> only_path ks v (JObj (set_nested ks v []))"
proof (induction ks v "[] :: dict" rule: set_nested.induct)
  case (1 v)
  then show ?case by simp
next
  case (2 k v)
  then show ?case by simp
next
  case (3 k k' ks v)
  then show ?case by simp
qed

lemma set_nested_first:
  "ks \<noteq> [] \<Longrightarrow> map_of (set_nested (k # ks) v d) k = Some (JObj (set_nested ks v []))"
  by (cases ks) (simp_all add: map_of_update)

lemma skip_build_pass_get:
  "k \<noteq> SAM_METADATA_SKIP_BUILD_KEY \<Longrightarrow> dict_get (skip_build_pass md) k dflt = dict_get md k dflt"
  by (simp add: skip_build_pass_def dict_get_update)

lemma skip_build_pass_map_of:
  "k \<noteq> SAM_METADATA_SKIP_BUILD_KEY \<Longrightarrow> map_of (skip_build_pass md) k = map_of md k"
  by (simp add: skip_build_pass_def map_of_update)

lemma skip_build_pass_idem: "skip_build_pass (skip_build_pass m) = skip_build_pass m"
  by (simp add: skip_build_pass_def dict_get_update key_defs)

lemma metadata_of_update:
  "metadata_of (JObj (AList.update METADATA_KEY (JObj m) r)) = m"
  by (simp add: metadata_of_def dict_get_update)

lemma properties_of_update_metadata:
  "properties_of (JObj (AList.update METADATA_KEY v r)) = properties_of (JObj r)"
  by (simp add: properties_of_def map_of_update key_defs)

lemma metadata_present:
  assumes "dict_get r METADATA_KEY (JObj []) = JObj md" "md \<noteq> []"
  shows "map_of r METADATA_KEY \<noteq> None"
  using assms by (cases "map_of r METADATA_KEY") (auto simp add: dict_get_def)

lemma set_entry_get:
  assumes "dict_get t k (JObj []) = JObj d0" "map_of t k = None \<longrightarrow> d = []"
  shows "dict_get (set_entry k d t) k (JObj []) = JObj d"
  using assms by (auto simp add: set_entry_def dict_get_def map_of_update)

lemma set_entry_get_other:
  "k' \<noteq> k \<Longrightarrow> dict_get (set_entry k d t) k' dflt = dict_get t k' dflt"
  by (simp add: set_entry_def dict_get_update)

lemma set_entry_map_of_other:
  "k' \<noteq> k \<Longrightarrow> map_of (set_entry k d t) k' = map_of t k'"
  by (simp add: set_entry_def map_of_update)

lemma set_entry_again:
  assumes "dict_get t k (JObj []) = JObj d"
  shows "set_entry k d t = t"
  using assms by (auto simp add: set_entry_def dict_get_def AList.update_triv)

subsection \<open>Evaluating the model on an example\<close>

lemmas eval_defs =
  normalize_def normalize_resource_def asset_rewrite_def replace_property_def
  extract_image_asset_metadata_def dict_get_def key_defs Let_def
  template_resources_def metadata_of_def properties_of_def locator_of_def asset_path_of_def
  marked_normalized_def

lemmas path_defs =
  Path_def Path2_def parse_part_def splitroot_def joinpath_def path_stem_def path_name_def
  path_parent_def path_str_def rfind_def

lemma lower_MyFn: "lower ''MyFn'' = ''myfn''"
  by code_simp

section \<open>The steps of \<open>normalize\<close>\<close>

subsection \<open>\<open>_replace_property\<close>\<close>

lemma replace_property_both:
  assumes "replace_property pkey pval r lid = Inr (r1, l)" "truthy pkey" "truthy pval"
  shows "\<exists>pk. pkey = JStr pk \<and> l = []
           \<and> r1 = (case map_of r PROPERTIES_KEY of
                     Some (JObj p) \<Rightarrow>
                       AList.update PROPERTIES_KEY (JObj (set_nested (split_on CHR ''.'' pk) pval p)) r
                   | _ \<Rightarrow> r)"
  using assms
  by (auto simp add: replace_property_def Let_def split: json.splits option.splits)

lemma replace_property_not_both:
  assumes "\<not> (truthy pkey \<and> truthy pval)"
  shows "replace_property pkey pval r lid =
     Inr (r, if truthy pkey \<or> truthy pval then [(INFO, ignoring_metadata_msg, [lid])] else [])"
  using assms by (auto simp add: replace_property_def)

lemma replace_property_metadata:
  assumes "replace_property pkey pval r lid = Inr (r1, l)"
  shows "map_of r1 METADATA_KEY = map_of r METADATA_KEY"
  using assms
  by (auto simp add: replace_property_def Let_def map_of_update key_defs
      split: json.splits option.splits if_splits)

lemma replace_property_logs:
  assumes "replace_property pkey pval r lid = Inr (r1, l)"
  shows "l = [] \<or> l = [(INFO, ignoring_metadata_msg, [lid])]"
  using assms
  by (auto simp add: replace_property_def Let_def split: json.splits option.splits if_splits)

subsection \<open>\<open>_extract_image_asset_metadata\<close>\<close>

lemma extract_keys:
  assumes "extract_image_asset_metadata md = Inr am"
  shows "\<exists>a b c. am = [(SAM_METADATA_DOCKERFILE_KEY, a), (SAM_METADATA_DOCKER_CONTEXT_KEY, b),
                        (SAM_METADATA_DOCKER_BUILD_ARGS_KEY, c)]"
  using assms
  by (auto simp add: extract_image_asset_metadata_def Let_def split: json.splits)

lemma extract_depends:
  assumes "dict_get m ASSET_PATH_METADATA_KEY (JStr []) = dict_get md ASSET_PATH_METADATA_KEY (JStr [])"
    and "dict_get m ASSET_DOCKERFILE_PATH_KEY JNull = dict_get md ASSET_DOCKERFILE_PATH_KEY JNull"
    and "dict_get m ASSET_DOCKERFILE_BUILD_ARGS_KEY (JObj [])
          = dict_get md ASSET_DOCKERFILE_BUILD_ARGS_KEY (JObj [])"
  shows "extract_image_asset_metadata m = extract_image_asset_metadata md"
  unfolding extract_image_asset_metadata_def assms by (rule refl)


lemma update_three_again:
  assumes "m = skip_build_pass (update_resource_metadata md
       [(SAM_METADATA_DOCKERFILE_KEY, a), (SAM_METADATA_DOCKER_CONTEXT_KEY, b),
        (SAM_METADATA_DOCKER_BUILD_ARGS_KEY, c)])"
  shows "update_resource_metadata m
       [(SAM_METADATA_DOCKERFILE_KEY, a), (SAM_METADATA_DOCKER_CONTEXT_KEY, b),
        (SAM_METADATA_DOCKER_BUILD_ARGS_KEY, c)] = m"
proof -
  have 1: "map_of m SAM_METADATA_DOCKERFILE_KEY = Some a"
    unfolding assms by (simp add: skip_build_pass_map_of map_of_update key_defs)
  have 2: "map_of m SAM_METADATA_DOCKER_CONTEXT_KEY = Some b"
    unfolding assms by (simp add: skip_build_pass_map_of map_of_update key_defs)
  have 3: "map_of m SAM_METADATA_DOCKER_BUILD_ARGS_KEY = Some c"
    unfolding assms by (simp add: skip_build_pass_map_of map_of_update key_defs)
  show ?thesis by (simp add: AList.update_triv 1 2 3)
qed

subsection \<open>The asset rewrite of one resource\<close>

lemma asset_rewrite_both:
  assumes ar: "asset_rewrite lid r md = Inr (r1, md1, l)"
    and loc: "truthy (dict_get md ASSET_PROPERTY_METADATA_KEY JNull)"
    and ap: "truthy (if dict_get md ASSET_PROPERTY_METADATA_KEY JNull = JStr IMAGE_ASSET_PROPERTY
                     then JStr (lower lid) else dict_get md ASSET_PATH_METADATA_KEY JNull)"
  shows "\<exists>pk. dict_get md ASSET_PROPERTY_METADATA_KEY JNull = JStr pk \<and> l = []
           \<and> r1 = (case map_of r PROPERTIES_KEY of
                     Some (JObj p) \<Rightarrow>
                       AList.update PROPERTIES_KEY
                         (JObj (set_nested (split_on CHR ''.'' pk)
                            (if dict_get md ASSET_PROPERTY_METADATA_KEY JNull = JStr IMAGE_ASSET_PROPERTY
                             then JStr (lower lid) else dict_get md ASSET_PATH_METADATA_KEY JNull) p)) r
                   | _ \<Rightarrow> r)
           \<and> dict_get md1 SAM_IS_NORMALIZED (JBool False) = JBool True"
proof (cases "dict_get md ASSET_PROPERTY_METADATA_KEY JNull = JStr IMAGE_ASSET_PROPERTY")
  case True
  with ar obtain am where
    rp: "replace_property (JStr IMAGE_ASSET_PROPERTY) (JStr (lower lid)) r lid = Inr (r1, l)"
    and md1: "md1 = (if truthy (JStr (lower lid)) \<and> truthy (JStr IMAGE_ASSET_PROPERTY)
                     then AList.update SAM_IS_NORMALIZED (JBool True) (update_resource_metadata md am)
                     else update_resource_metadata md am)"
    by (auto simp add: asset_rewrite_def Let_def split: sum.splits)
  from ap True have t: "truthy (JStr (lower lid))" by simp
  have t2: "truthy (JStr IMAGE_ASSET_PROPERTY)" by (simp add: key_defs)
  from replace_property_both [OF rp t2 t] md1 t t2 True show ?thesis
    by (auto simp add: dict_get_update)
next
  case False
  with ar have
    rp: "replace_property (dict_get md ASSET_PROPERTY_METADATA_KEY JNull)
           (dict_get md ASSET_PATH_METADATA_KEY JNull) r lid = Inr (r1, l)"
    and md1: "md1 = (if truthy (dict_get md ASSET_PATH_METADATA_KEY JNull)
                        \<and> truthy (dict_get md ASSET_PROPERTY_METADATA_KEY JNull)
                     then AList.update SAM_IS_NORMALIZED (JBool True) md else md)"
    by (auto simp add: asset_rewrite_def Let_def split: sum.splits)
  from ap False have t: "truthy (dict_get md ASSET_PATH_METADATA_KEY JNull)" by simp
  from replace_property_both [OF rp loc t] md1 t loc False show ?thesis
    by (auto simp add: dict_get_update)
qed

lemma asset_rewrite_metadata:
  assumes "asset_rewrite lid r md = Inr (r1, md1, l)"
  shows "map_of r1 METADATA_KEY = map_of r METADATA_KEY"
  using assms
  by (auto simp add: asset_rewrite_def Let_def split: sum.splits if_splits
      dest: replace_property_metadata)

lemma asset_rewrite_logs:
  assumes "asset_rewrite lid r md = Inr (r1, md1, l)"
  shows "l = [] \<or> l = [(INFO, ignoring_metadata_msg, [lid])]"
  using assms
  by (auto simp add: asset_rewrite_def Let_def split: sum.splits if_splits
      dest: replace_property_logs)

lemma asset_rewrite_one:
  assumes ar: "asset_rewrite lid r md = Inr (r1, md1, l)"
    and one: "truthy (dict_get md ASSET_PROPERTY_METADATA_KEY JNull)
        \<noteq> truthy (if dict_get md ASSET_PROPERTY_METADATA_KEY JNull = JStr IMAGE_ASSET_PROPERTY
                     then JStr (lower lid) else dict_get md ASSET_PATH_METADATA_KEY JNull)"
  shows "r1 = r \<and> l = [(INFO, ignoring_metadata_msg, [lid])]
       \<and> dict_get md1 SAM_IS_NORMALIZED (JBool False) = dict_get md SAM_IS_NORMALIZED (JBool False)"
proof (cases "dict_get md ASSET_PROPERTY_METADATA_KEY JNull = JStr IMAGE_ASSET_PROPERTY")
  case True
  with one have e: "\<not> truthy (JStr (lower lid))" by (simp add: key_defs)
  from ar True e obtain am where am: "extract_image_asset_metadata md = Inr am"
    and rp: "replace_property (JStr IMAGE_ASSET_PROPERTY) (JStr (lower lid)) r lid = Inr (r1, l)"
    and md1: "md1 = update_resource_metadata md am"
    by (auto simp add: asset_rewrite_def Let_def split: sum.splits if_splits)
  from extract_keys [OF am] md1
  have "dict_get md1 SAM_IS_NORMALIZED (JBool False) = dict_get md SAM_IS_NORMALIZED (JBool False)"
    by (auto simp add: dict_get_update key_defs)
  moreover from rp e have "r1 = r \<and> l = [(INFO, ignoring_metadata_msg, [lid])]"
    by (auto simp add: replace_property_def key_defs split: if_splits)
  ultimately show ?thesis by simp
next
  case False
  with ar have
    rp: "replace_property (dict_get md ASSET_PROPERTY_METADATA_KEY JNull)
           (dict_get md ASSET_PATH_METADATA_KEY JNull) r lid = Inr (r1, l)"
    and md1: "md1 = (if truthy (dict_get md ASSET_PATH_METADATA_KEY JNull)
                        \<and> truthy (dict_get md ASSET_PROPERTY_METADATA_KEY JNull)
                     then AList.update SAM_IS_NORMALIZED (JBool True) md else md)"
    by (auto simp add: asset_rewrite_def Let_def split: sum.splits)
  from one False have o: "truthy (dict_get md ASSET_PROPERTY_METADATA_KEY JNull)
      \<noteq> truthy (dict_get md ASSET_PATH_METADATA_KEY JNull)" by simp
  with md1 have "md1 = md" by auto
  moreover from rp o have "r1 = r \<and> l = [(INFO, ignoring_metadata_msg, [lid])]"
    by (auto simp add: replace_property_def split: if_splits)
  ultimately show ?thesis by simp
qed

lemma asset_rewrite_again:
  assumes ar: "asset_rewrite lid r md = Inr (r1, md1, l)"
    and nb: "\<not> (truthy (dict_get md ASSET_PROPERTY_METADATA_KEY JNull)
        \<and> truthy (if dict_get md ASSET_PROPERTY_METADATA_KEY JNull = JStr IMAGE_ASSET_PROPERTY
                     then JStr (lower lid) else dict_get md ASSET_PATH_METADATA_KEY JNull))"
  shows "r1 = r \<and> (\<exists>l'. asset_rewrite lid r' (skip_build_pass md1)
                          = Inr (r', skip_build_pass md1, l'))
       \<and> dict_get md1 SAM_IS_NORMALIZED (JBool False) = dict_get md SAM_IS_NORMALIZED (JBool False)"
proof (cases "dict_get md ASSET_PROPERTY_METADATA_KEY JNull = JStr IMAGE_ASSET_PROPERTY")
  case True
  with nb have e: "\<not> truthy (JStr (lower lid))" by (simp add: key_defs)
  from ar True e obtain am where am: "extract_image_asset_metadata md = Inr am"
    and rp: "replace_property (JStr IMAGE_ASSET_PROPERTY) (JStr (lower lid)) r lid = Inr (r1, l)"
    and md1: "md1 = update_resource_metadata md am"
    by (auto simp add: asset_rewrite_def Let_def split: sum.splits if_splits)
  from extract_keys [OF am] obtain a b c where
    k: "am = [(SAM_METADATA_DOCKERFILE_KEY, a), (SAM_METADATA_DOCKER_CONTEXT_KEY, b),
              (SAM_METADATA_DOCKER_BUILD_ARGS_KEY, c)]" by blast
  let ?m = "skip_build_pass md1"
  have same: "\<And>key d. key \<noteq> SAM_METADATA_DOCKERFILE_KEY \<Longrightarrow> key \<noteq> SAM_METADATA_DOCKER_CONTEXT_KEY
      \<Longrightarrow> key \<noteq> SAM_METADATA_DOCKER_BUILD_ARGS_KEY \<Longrightarrow> key \<noteq> SAM_METADATA_SKIP_BUILD_KEY
      \<Longrightarrow> dict_get ?m key d = dict_get md key d"
    unfolding md1 k by (simp add: skip_build_pass_get dict_get_update)
  have "extract_image_asset_metadata ?m = extract_image_asset_metadata md"
    by (rule extract_depends) (simp_all add: same key_defs)
  with am have am': "extract_image_asset_metadata ?m = Inr am" by simp
  have loc': "dict_get ?m ASSET_PROPERTY_METADATA_KEY JNull = JStr IMAGE_ASSET_PROPERTY"
    using True by (simp add: same key_defs)
  have upd: "update_resource_metadata ?m am = ?m"
    unfolding k by (rule update_three_again) (simp add: md1 k)
  have t2: "truthy (JStr IMAGE_ASSET_PROPERTY)" by (simp add: key_defs)
  from e have e': "lower lid = []" by simp
  have rp': "replace_property (JStr IMAGE_ASSET_PROPERTY) (JStr []) r' lid
      = Inr (r', [(INFO, ignoring_metadata_msg, [lid])])"
    using t2 by (simp add: replace_property_not_both)
  have "asset_rewrite lid r' ?m = Inr (r', ?m, [(INFO, ignoring_metadata_msg, [lid])])"
    by (simp add: asset_rewrite_def Let_def loc' am' upd rp' e')
  moreover from rp e have "r1 = r"
    by (auto simp add: replace_property_def key_defs split: if_splits)
  moreover have "dict_get md1 SAM_IS_NORMALIZED (JBool False) = dict_get md SAM_IS_NORMALIZED (JBool False)"
    unfolding md1 k by (simp add: dict_get_update key_defs)
  ultimately show ?thesis by blast
next
  case False
  let ?k = "dict_get md ASSET_PROPERTY_METADATA_KEY JNull"
  let ?v = "dict_get md ASSET_PATH_METADATA_KEY JNull"
  from nb False have nb': "\<not> (truthy ?k \<and> truthy ?v)" by simp
  from ar False nb' have r1: "r1 = r" and md1: "md1 = md"
    by (auto simp add: asset_rewrite_def Let_def replace_property_not_both split: sum.splits)
  have g1: "dict_get (skip_build_pass md) ASSET_PROPERTY_METADATA_KEY JNull = ?k"
    by (simp add: skip_build_pass_get key_defs)
  have g2: "dict_get (skip_build_pass md) ASSET_PATH_METADATA_KEY JNull = ?v"
    by (simp add: skip_build_pass_get key_defs)
  have "\<exists>l'. asset_rewrite lid r' (skip_build_pass md) = Inr (r', skip_build_pass md, l')"
    using False nb'
    by (auto simp add: asset_rewrite_def g1 g2 Let_def replace_property_not_both)
  with r1 md1 show ?thesis by simp
qed

subsection \<open>One iteration of the loop over the resources\<close>

lemma normalize_resource_shape:
  assumes "normalize_resource lid res = Inr (res', l)"
  obtains r md where "res = JObj r" "dict_get r METADATA_KEY (JObj []) = JObj md"
    "metadata_of res = md"
proof -
  from assms obtain r where r: "res = JObj r"
    by (cases res) (simp_all add: normalize_resource_def)
  from assms r obtain md where md: "dict_get r METADATA_KEY (JObj []) = JObj md"
    by (cases "dict_get r METADATA_KEY (JObj [])") (simp_all add: normalize_resource_def)
  from r md have "metadata_of res = md" by (simp add: metadata_of_def)
  with r md that show thesis by blast
qed

lemma normalize_resource_unfold:
  assumes "res = JObj r" "dict_get r METADATA_KEY (JObj []) = JObj md"
  shows "normalize_resource lid res =
     (case (if \<not> truthy (dict_get md SAM_IS_NORMALIZED (JBool False))
            then asset_rewrite lid r md else Inr (r, md, [])) of
        Inl e \<Rightarrow> Inl e
      | Inr (r1, md1, logs) \<Rightarrow>
          Inr (JObj (if map_of r METADATA_KEY = None then r1
                     else AList.update METADATA_KEY (JObj (skip_build_pass md1)) r1), logs))"
  using assms
  by (auto simp add: normalize_resource_def skip_build_pass_def Let_def split: sum.splits)

lemma normalize_resource_result:
  assumes "normalize_resource lid res = Inr (res', l)"
  obtains r md r1 md1 where "res = JObj r" "dict_get r METADATA_KEY (JObj []) = JObj md"
    "metadata_of res = md"
    "(if \<not> truthy (dict_get md SAM_IS_NORMALIZED (JBool False))
      then asset_rewrite lid r md else Inr (r, md, [])) = Inr (r1, md1, l)"
    "res' = JObj (if map_of r METADATA_KEY = None then r1
                  else AList.update METADATA_KEY (JObj (skip_build_pass md1)) r1)"
proof -
  from assms obtain r md where s: "res = JObj r" "dict_get r METADATA_KEY (JObj []) = JObj md"
    "metadata_of res = md" by (rule normalize_resource_shape)
  from assms obtain r1 md1 where
    "(if \<not> truthy (dict_get md SAM_IS_NORMALIZED (JBool False))
      then asset_rewrite lid r md else Inr (r, md, [])) = Inr (r1, md1, l)"
    "res' = JObj (if map_of r METADATA_KEY = None then r1
                  else AList.update METADATA_KEY (JObj (skip_build_pass md1)) r1)"
    unfolding normalize_resource_unfold [OF s(1,2)]
    by (auto split: sum.splits)
  with s that show thesis by blast
qed

lemma normalize_resource_rewrite:
  assumes nr: "normalize_resource lid res = Inr (res', l)"
    and um: "\<not> marked_normalized res"
    and loc: "truthy (locator_of res)"
    and ap: "truthy (asset_path_of lid res)"
  shows "\<exists>pk. locator_of res = JStr pk
           \<and> properties_of res' =
               (case properties_of res of
                  Some (JObj p) \<Rightarrow>
                    Some (JObj (set_nested (split_on CHR ''.'' pk) (asset_path_of lid res) p))
                | x \<Rightarrow> x)
           \<and> l = [] \<and> marked_normalized res'"
proof -
  from nr obtain r md where s: "res = JObj r" "dict_get r METADATA_KEY (JObj []) = JObj md"
    "metadata_of res = md" by (rule normalize_resource_shape)
  have present: "map_of r METADATA_KEY \<noteq> None"
  proof
    assume "map_of r METADATA_KEY = None"
    with s have "md = []" by (simp add: dict_get_def)
    with loc s show False by (simp add: locator_of_def dict_get_def)
  qed
  from um s have um': "\<not> truthy (dict_get md SAM_IS_NORMALIZED (JBool False))"
    by (simp add: marked_normalized_def)
  from nr um' present obtain r1 md1 where
    ar: "asset_rewrite lid r md = Inr (r1, md1, l)"
    and res': "res' = JObj (AList.update METADATA_KEY (JObj (skip_build_pass md1)) r1)"
    unfolding normalize_resource_unfold [OF s(1,2)]
    by (auto split: sum.splits)
  from loc have loc': "truthy (dict_get md ASSET_PROPERTY_METADATA_KEY JNull)"
    unfolding locator_of_def s(3) .
  from ap have ap': "truthy (if dict_get md ASSET_PROPERTY_METADATA_KEY JNull = JStr IMAGE_ASSET_PROPERTY
                     then JStr (lower lid) else dict_get md ASSET_PATH_METADATA_KEY JNull)"
    unfolding asset_path_of_def locator_of_def s(3) .
  from asset_rewrite_both [OF ar loc' ap'] obtain pk where
    pk: "dict_get md ASSET_PROPERTY_METADATA_KEY JNull = JStr pk" "l = []"
      "r1 = (case map_of r PROPERTIES_KEY of
                     Some (JObj p) \<Rightarrow>
                       AList.update PROPERTIES_KEY
                         (JObj (set_nested (split_on CHR ''.'' pk) (asset_path_of lid res) p)) r
                   | _ \<Rightarrow> r)"
      "dict_get md1 SAM_IS_NORMALIZED (JBool False) = JBool True"
    unfolding asset_path_of_def locator_of_def s(3) by blast
  have m: "marked_normalized res'"
    using res' pk(4)
    by (simp add: marked_normalized_def metadata_of_def dict_get_update skip_build_pass_get key_defs)
  have p: "properties_of res' = (case properties_of res of
                  Some (JObj p) \<Rightarrow>
                    Some (JObj (set_nested (split_on CHR ''.'' pk) (asset_path_of lid res) p))
                | x \<Rightarrow> x)"
    using res' pk(3) s(1)
    by (auto simp add: properties_of_def map_of_update key_defs split: option.splits json.splits)
  from pk(1,2) m p show ?thesis unfolding locator_of_def s(3) by simp
qed


lemma normalize_resource_logs:
  assumes "normalize_resource lid res = Inr (res', l)"
  shows "l = [] \<or> l = [(INFO, ignoring_metadata_msg, [lid])]"
proof -
  from assms obtain r md r1 md1 where
    "(if \<not> truthy (dict_get md SAM_IS_NORMALIZED (JBool False))
      then asset_rewrite lid r md else Inr (r, md, [])) = Inr (r1, md1, l)"
    by (rule normalize_resource_result)
  then show ?thesis by (auto split: if_splits dest: asset_rewrite_logs)
qed

lemma normalize_resource_marked:
  assumes nr: "normalize_resource lid res = Inr (res1, l)"
    and m: "marked_normalized res"
  shows "marked_normalized res1 \<and> properties_of res1 = properties_of res"
proof -
  from nr obtain r md r1 md1 where s: "res = JObj r" "dict_get r METADATA_KEY (JObj []) = JObj md"
    "metadata_of res = md"
    "(if \<not> truthy (dict_get md SAM_IS_NORMALIZED (JBool False))
      then asset_rewrite lid r md else Inr (r, md, [])) = Inr (r1, md1, l)"
    "res1 = JObj (if map_of r METADATA_KEY = None then r1
                  else AList.update METADATA_KEY (JObj (skip_build_pass md1)) r1)"
    by (rule normalize_resource_result)
  from m have t: "truthy (dict_get md SAM_IS_NORMALIZED (JBool False))"
    unfolding marked_normalized_def s(3) .
  with s(4) have e: "r1 = r" "md1 = md" by simp_all
  from t have "md \<noteq> []" by (auto simp add: dict_get_def)
  from metadata_present [OF s(2) this] s(5) e
  have res1: "res1 = JObj (AList.update METADATA_KEY (JObj (skip_build_pass md)) r)" by auto
  have "marked_normalized res1"
    using t unfolding res1 marked_normalized_def metadata_of_update
    by (simp add: skip_build_pass_get key_defs)
  moreover have "properties_of res1 = properties_of res"
    unfolding res1 s(1) by (rule properties_of_update_metadata)
  ultimately show ?thesis by simp
qed

text \<open>An iteration leaves its own result as it is.\<close>

lemma normalize_resource_fix:
  assumes stage: "(if \<not> truthy (dict_get m2 SAM_IS_NORMALIZED (JBool False))
      then asset_rewrite lid (AList.update METADATA_KEY (JObj m2) r1) m2
      else Inr (AList.update METADATA_KEY (JObj m2) r1, m2, []))
      = Inr (AList.update METADATA_KEY (JObj m2) r1, X, l')"
    and fixd: "skip_build_pass X = m2"
  shows "normalize_resource lid (JObj (AList.update METADATA_KEY (JObj m2) r1))
      = Inr (JObj (AList.update METADATA_KEY (JObj m2) r1), l')"
proof -
  have g: "dict_get (AList.update METADATA_KEY (JObj m2) r1) METADATA_KEY (JObj []) = JObj m2"
    by (simp add: dict_get_update)
  have p: "map_of (AList.update METADATA_KEY (JObj m2) r1) METADATA_KEY \<noteq> None"
    by (simp add: map_of_update)
  show ?thesis
    unfolding normalize_resource_unfold [OF refl g] stage
    using p fixd by simp
qed

lemma normalize_resource_idem:
  assumes nr: "normalize_resource lid res = Inr (res1, l)"
  shows "\<exists>l'. normalize_resource lid res1 = Inr (res1, l')"
proof -
  from nr obtain r md r1 md1 where s: "res = JObj r" "dict_get r METADATA_KEY (JObj []) = JObj md"
    "metadata_of res = md"
    "(if \<not> truthy (dict_get md SAM_IS_NORMALIZED (JBool False))
      then asset_rewrite lid r md else Inr (r, md, [])) = Inr (r1, md1, l)"
    "res1 = JObj (if map_of r METADATA_KEY = None then r1
                  else AList.update METADATA_KEY (JObj (skip_build_pass md1)) r1)"
    by (rule normalize_resource_result)
  show ?thesis
  proof (cases "map_of r METADATA_KEY = None")
    case True
    with s(2) have md: "md = []" by (simp add: dict_get_def)
    have "asset_rewrite lid r [] = Inr (r, [], [])"
      by (simp add: asset_rewrite_def dict_get_def replace_property_def key_defs)
    with s(4) md have "r1 = r" by (simp add: dict_get_def)
    with s(5) True s(1) have "res1 = res" by simp
    with nr show ?thesis by blast
  next
    case False
    with s(5) have res1: "res1 = JObj (AList.update METADATA_KEY (JObj (skip_build_pass md1)) r1)"
      by simp
    let ?m2 = "skip_build_pass md1"
    let ?r' = "AList.update METADATA_KEY (JObj ?m2) r1"
    have "\<exists>X l'. (if \<not> truthy (dict_get ?m2 SAM_IS_NORMALIZED (JBool False))
              then asset_rewrite lid ?r' ?m2 else Inr (?r', ?m2, [])) = Inr (?r', X, l')
            \<and> skip_build_pass X = ?m2"
    proof (cases "truthy (dict_get md1 SAM_IS_NORMALIZED (JBool False))")
      case True
      then have "truthy (dict_get ?m2 SAM_IS_NORMALIZED (JBool False))"
        by (simp add: skip_build_pass_get key_defs)
      then show ?thesis by (simp add: skip_build_pass_idem)
    next
      case unmarked1: False
      have um: "\<not> truthy (dict_get md SAM_IS_NORMALIZED (JBool False))"
      proof
        assume "truthy (dict_get md SAM_IS_NORMALIZED (JBool False))"
        with s(4) have "md1 = md" by simp
        with unmarked1 \<open>truthy (dict_get md SAM_IS_NORMALIZED (JBool False))\<close> show False by simp
      qed
      with s(4) have ar: "asset_rewrite lid r md = Inr (r1, md1, l)" by simp
      have nb: "\<not> (truthy (dict_get md ASSET_PROPERTY_METADATA_KEY JNull)
        \<and> truthy (if dict_get md ASSET_PROPERTY_METADATA_KEY JNull = JStr IMAGE_ASSET_PROPERTY
                     then JStr (lower lid) else dict_get md ASSET_PATH_METADATA_KEY JNull))"
      proof
        assume b: "truthy (dict_get md ASSET_PROPERTY_METADATA_KEY JNull)
        \<and> truthy (if dict_get md ASSET_PROPERTY_METADATA_KEY JNull = JStr IMAGE_ASSET_PROPERTY
                     then JStr (lower lid) else dict_get md ASSET_PATH_METADATA_KEY JNull)"
        from asset_rewrite_both [OF ar conjunct1 [OF b] conjunct2 [OF b]] unmarked1
        show False by auto
      qed
      from asset_rewrite_again [OF ar nb, of ?r'] obtain l' where
        "asset_rewrite lid ?r' ?m2 = Inr (?r', ?m2, l')" by blast
      moreover have "\<not> truthy (dict_get ?m2 SAM_IS_NORMALIZED (JBool False))"
        using unmarked1 by (simp add: skip_build_pass_get key_defs)
      ultimately show ?thesis by (auto simp add: skip_build_pass_idem)
    qed
    then obtain X l' where
      "(if \<not> truthy (dict_get ?m2 SAM_IS_NORMALIZED (JBool False))
              then asset_rewrite lid ?r' ?m2 else Inr (?r', ?m2, [])) = Inr (?r', X, l')"
      "skip_build_pass X = ?m2" by blast
    from normalize_resource_fix [OF this] res1 show ?thesis by blast
  qed
qed

subsection \<open>The loops and the template\<close>

lemma normalize_resources_lookup:
  "normalize_resources rs = Inr (rs', logs) \<Longrightarrow> map_of rs lid = Some res \<Longrightarrow>
   \<exists>res' l. normalize_resource lid res = Inr (res', l) \<and> map_of rs' lid = Some res'"
proof (induction rs arbitrary: rs' logs)
  case Nil
  then show ?case by simp
next
  case (Cons a rs)
  obtain k v where a: "a = (k, v)" by (cases a)
  from Cons.prems(1) a obtain v1 l1 rest1 l2 where
    s: "normalize_resource k v = Inr (v1, l1)" "normalize_resources rs = Inr (rest1, l2)"
       "rs' = (k, v1) # rest1"
    by (auto split: sum.splits)
  show ?case
  proof (cases "lid = k")
    case True
    with Cons.prems(2) a s show ?thesis by simp
  next
    case False
    with Cons.prems(2) a have "map_of rs lid = Some res" by simp
    from Cons.IH [OF s(2) this] False s(3) show ?thesis by simp
  qed
qed

lemma normalize_resources_Nil: "normalize_resources [] = Inr (rs1, l) \<Longrightarrow> rs1 = []"
  by simp

lemma normalize_resources_idem:
  "normalize_resources rs = Inr (rs1, l) \<Longrightarrow> \<exists>l'. normalize_resources rs1 = Inr (rs1, l')"
proof (induction rs arbitrary: rs1 l)
  case Nil
  then show ?case by auto
next
  case (Cons a rs)
  obtain k v where a: "a = (k, v)" by (cases a)
  from Cons.prems(1) a obtain v1 l1 rest1 l2 where
    s: "normalize_resource k v = Inr (v1, l1)" "normalize_resources rs = Inr (rest1, l2)"
       "rs1 = (k, v1) # rest1"
    by (auto split: sum.splits)
  from normalize_resource_idem [OF s(1)] Cons.IH [OF s(2)] s(3) show ?case by auto
qed

lemma diagnostics_for_own:
  assumes "normalize_resource lid res = Inr (res', l)"
  shows "diagnostics_for lid l = l"
  using normalize_resource_logs [OF assms] by (auto simp add: diagnostics_for_def)

lemma diagnostics_for_other:
  assumes "normalize_resource k res = Inr (res', l)" "k \<noteq> lid"
  shows "diagnostics_for lid l = []"
  using normalize_resource_logs [OF assms(1)] assms(2) by (auto simp add: diagnostics_for_def)

lemma diagnostics_for_append:
  "diagnostics_for lid (a @ b) = diagnostics_for lid a @ diagnostics_for lid b"
  by (simp add: diagnostics_for_def)

lemma normalize_resources_no_diagnostics:
  "normalize_resources rs = Inr (rs', logs) \<Longrightarrow> lid \<notin> fst ` set rs \<Longrightarrow>
   diagnostics_for lid logs = []"
proof (induction rs arbitrary: rs' logs)
  case Nil
  then show ?case by (simp add: diagnostics_for_def)
next
  case (Cons a rs)
  obtain k v where a: "a = (k, v)" by (cases a)
  from Cons.prems(1) a obtain v1 l1 rest1 l2 where
    s: "normalize_resource k v = Inr (v1, l1)" "normalize_resources rs = Inr (rest1, l2)"
       "logs = l1 @ l2"
    by (auto split: sum.splits)
  from Cons.prems(2) a have ne: "k \<noteq> lid" and ni: "lid \<notin> fst ` set rs" by auto
  from Cons.IH [OF s(2) ni] diagnostics_for_other [OF s(1) ne] s(3)
  show ?case by (simp add: diagnostics_for_append)
qed

lemma normalize_resources_diagnostics:
  "normalize_resources rs = Inr (rs', logs) \<Longrightarrow> distinct (map fst rs) \<Longrightarrow>
   map_of rs lid = Some res \<Longrightarrow> normalize_resource lid res = Inr (res', l) \<Longrightarrow>
   diagnostics_for lid logs = l"
proof (induction rs arbitrary: rs' logs)
  case Nil
  then show ?case by simp
next
  case (Cons a rs)
  obtain k v where a: "a = (k, v)" by (cases a)
  from Cons.prems(1) a obtain v1 l1 rest1 l2 where
    s: "normalize_resource k v = Inr (v1, l1)" "normalize_resources rs = Inr (rest1, l2)"
       "logs = l1 @ l2"
    by (auto split: sum.splits)
  from Cons.prems(2) a have ni: "k \<notin> fst ` set rs" and d: "distinct (map fst rs)" by auto
  show ?case
  proof (cases "lid = k")
    case True
    with Cons.prems(3,4) a s(1) have "l1 = l" by simp
    with diagnostics_for_own [OF Cons.prems(4)]
      normalize_resources_no_diagnostics [OF s(2)] ni True s(3)
    show ?thesis by (simp add: diagnostics_for_append)
  next
    case False
    with Cons.prems(3) a have "map_of rs lid = Some res" by simp
    from Cons.IH [OF s(2) d this Cons.prems(4)] diagnostics_for_other [OF s(1)] False s(3)
    show ?thesis by (simp add: diagnostics_for_append)
  qed
qed

lemma normalize_template_resources:
  assumes "normalize c T np = Inr (T', logs)"
  shows "normalize_resources (template_resources T) = Inr (template_resources T', logs)"
proof -
  from assms obtain t where T: "T = JObj t"
    by (cases T) (simp_all add: normalize_def)
  from assms T obtain rs where rs: "dict_get t RESOURCES_KEY (JObj []) = JObj rs"
    by (cases "dict_get t RESOURCES_KEY (JObj [])") (simp_all add: normalize_def)
  from assms T rs obtain rs1 where n: "normalize_resources rs = Inr (rs1, logs)"
    by (auto simp add: normalize_def Let_def split: sum.splits if_splits json.splits)
  have tr: "template_resources T = rs" using T rs by (simp add: template_resources_def)
  have "template_resources T' = rs1"
  proof (cases "map_of t RESOURCES_KEY")
    case None
    then have "rs = []" using rs by (simp add: dict_get_def)
    with n have "rs1 = []" by simp
    with assms T rs n None show ?thesis
      by (auto simp add: normalize_def Let_def template_resources_def dict_get_update dict_get_def map_of_update key_defs
          split: sum.splits if_splits json.splits)
  next
    case (Some a)
    with assms T rs n show ?thesis
      by (auto simp add: normalize_def Let_def template_resources_def dict_get_update map_of_update key_defs
          split: sum.splits if_splits json.splits)
  qed
  with tr n show ?thesis by simp
qed

lemma normalize_resource_at:
  assumes "normalize c T np = Inr (T', logs)" "map_of (template_resources T) lid = Some res"
  obtains res' l where "normalize_resource lid res = Inr (res', l)"
    "map_of (template_resources T') lid = Some res'"
  using normalize_resources_lookup [OF normalize_template_resources [OF assms(1)] assms(2)]
  by blast

lemma normalize_decompose:
  assumes "normalize c T np = Inr (T1, logs)"
  obtains t rs rs1 where "T = JObj t" "dict_get t RESOURCES_KEY (JObj []) = JObj rs"
    "normalize_resources rs = Inr (rs1, logs)"
proof -
  from assms obtain t where T: "T = JObj t"
    by (cases T) (simp_all add: normalize_def)
  from assms T obtain rs where rs: "dict_get t RESOURCES_KEY (JObj []) = JObj rs"
    by (cases "dict_get t RESOURCES_KEY (JObj [])") (simp_all add: normalize_def)
  from assms T rs obtain rs1 where n: "normalize_resources rs = Inr (rs1, logs)"
    by (auto simp add: normalize_def Let_def split: sum.splits if_splits json.splits)
  from T rs n that show thesis by blast
qed

lemma normalize_steps:
  assumes "dict_get t RESOURCES_KEY (JObj []) = JObj rs"
    and "normalize_resources rs = Inr (rs1, logs)"
  shows "normalize c (JObj t) np =
     (if np \<and> c (JObj (set_entry RESOURCES_KEY rs1 t)) then
        (case dict_get (set_entry RESOURCES_KEY rs1 t) ''Parameters'' (JObj []) of
           JObj ps \<Rightarrow>
             (case normalize_parameters_loop (json_dumps (JObj rs1)) ps of
                Inl e \<Rightarrow> Inl e
              | Inr ps1 \<Rightarrow>
                  Inr (JObj (set_entry ''Parameters'' ps1 (set_entry RESOURCES_KEY rs1 t)), logs))
         | _ \<Rightarrow> Inl AttributeError)
      else Inr (JObj (set_entry RESOURCES_KEY rs1 t), logs))"
  using assms unfolding normalize_def set_entry_def Let_def by simp

lemma normalize_parameter_idem:
  assumes "normalize_parameter s n v = Inr v1"
  shows "normalize_parameter s n v1 = Inr v1"
  using assms
  by (auto simp add: normalize_parameter_def map_of_update split: if_splits json.splits)

lemma normalize_parameters_loop_idem:
  "normalize_parameters_loop s ps = Inr ps1 \<Longrightarrow> normalize_parameters_loop s ps1 = Inr ps1"
proof (induction ps arbitrary: ps1)
  case Nil
  then show ?case by auto
next
  case (Cons a ps)
  obtain k v where a: "a = (k, v)" by (cases a)
  from Cons.prems(1) a obtain v1 rest1 where
    s: "normalize_parameter s k v = Inr v1" "normalize_parameters_loop s ps = Inr rest1"
       "ps1 = (k, v1) # rest1"
    by (auto split: sum.splits)
  from normalize_parameter_idem [OF s(1)] Cons.IH [OF s(2)] s(3) show ?case by auto
qed

lemma normalize_parameters_loop_Nil: "normalize_parameters_loop s [] = Inr ps1 \<Longrightarrow> ps1 = []"
  by simp

lemma normalize_parameters_loop_lookup:
  "normalize_parameters_loop s ps = Inr ps1 \<Longrightarrow> map_of ps n = Some v \<Longrightarrow>
   \<exists>v1. normalize_parameter s n v = Inr v1 \<and> map_of ps1 n = Some v1"
proof (induction ps arbitrary: ps1)
  case Nil
  then show ?case by simp
next
  case (Cons a ps)
  obtain k w where a: "a = (k, w)" by (cases a)
  from Cons.prems(1) a obtain w1 rest1 where
    s: "normalize_parameter s k w = Inr w1" "normalize_parameters_loop s ps = Inr rest1"
       "ps1 = (k, w1) # rest1"
    by (auto split: sum.splits)
  show ?case
  proof (cases "n = k")
    case True
    with Cons.prems(2) a s show ?thesis by simp
  next
    case False
    with Cons.prems(2) a have "map_of ps n = Some v" by simp
    from Cons.IH [OF s(2) this] False s(3) show ?thesis by simp
  qed
qed

lemma normalize_parameters_pass:
  assumes pre: "normalize c T False = Inr (TA, logsA)"
    and cdk: "c TA"
    and run: "normalize c T True = Inr (T', logs)"
  shows "normalize_parameters_loop (json_dumps (JObj (template_resources TA)))
           (template_parameters T) = Inr (template_parameters T')"
proof -
  from run obtain t rs rs1 where T: "T = JObj t"
    and rs: "dict_get t RESOURCES_KEY (JObj []) = JObj rs"
    and nrs: "normalize_resources rs = Inr (rs1, logs)"
    by (rule normalize_decompose)
  let ?tA = "set_entry RESOURCES_KEY rs1 t"
  from pre have TA: "TA = JObj ?tA"
    unfolding T normalize_steps [OF rs nrs] by simp
  have absent: "map_of t RESOURCES_KEY = None \<longrightarrow> rs1 = []"
  proof
    assume "map_of t RESOURCES_KEY = None"
    with rs have "rs = []" by (simp add: dict_get_def)
    with nrs show "rs1 = []" by simp
  qed
  have gA: "dict_get ?tA RESOURCES_KEY (JObj []) = JObj rs1"
    by (rule set_entry_get [OF rs absent])
  have trA: "template_resources TA = rs1"
    unfolding TA template_resources_def using gA by simp
  have pA: "dict_get ?tA ''Parameters'' (JObj []) = dict_get t ''Parameters'' (JObj [])"
    by (simp add: set_entry_get_other key_defs)
  from run cdk obtain ps ps1 where
    ps: "dict_get ?tA ''Parameters'' (JObj []) = JObj ps"
    and loop: "normalize_parameters_loop (json_dumps (JObj rs1)) ps = Inr ps1"
    and T': "T' = JObj (set_entry ''Parameters'' ps1 ?tA)"
    unfolding T normalize_steps [OF rs nrs] TA
    by (auto split: json.splits sum.splits)
  have tp: "template_parameters T = ps"
    unfolding T template_parameters_def using ps pA by simp
  have absentP: "map_of ?tA ''Parameters'' = None \<longrightarrow> ps1 = []"
  proof
    assume "map_of ?tA ''Parameters'' = None"
    with ps have "ps = []" by (simp add: dict_get_def)
    with loop show "ps1 = []" by simp
  qed
  have "dict_get (set_entry ''Parameters'' ps1 ?tA) ''Parameters'' (JObj []) = JObj ps1"
    by (rule set_entry_get [OF ps absentP])
  then have tp': "template_parameters T' = ps1"
    unfolding T' template_parameters_def by simp
  from loop show ?thesis unfolding trA tp tp' .
qed

text \<open>A second call on the result of a call returns and changes nothing.\<close>

lemma normalize_twice:
  assumes run: "normalize c T np = Inr (T1, logs1)"
  shows "\<exists>logs2. normalize c T1 np = Inr (T1, logs2)"
proof -
  from run obtain t rs rs1 where T: "T = JObj t"
    and rs: "dict_get t RESOURCES_KEY (JObj []) = JObj rs"
    and nrs: "normalize_resources rs = Inr (rs1, logs1)"
    by (rule normalize_decompose)
  let ?tA = "set_entry RESOURCES_KEY rs1 t"
  from normalize_resources_idem [OF nrs] obtain logs2 where
    nrs1: "normalize_resources rs1 = Inr (rs1, logs2)" by blast
  have absent: "map_of t RESOURCES_KEY = None \<longrightarrow> rs1 = []"
  proof
    assume "map_of t RESOURCES_KEY = None"
    with rs have "rs = []" by (simp add: dict_get_def)
    with nrs show "rs1 = []" by simp
  qed
  have gA: "dict_get ?tA RESOURCES_KEY (JObj []) = JObj rs1"
    by (rule set_entry_get [OF rs absent])
  have fixA: "set_entry RESOURCES_KEY rs1 ?tA = ?tA"
    by (rule set_entry_again [OF gA])
  note first = run [unfolded T normalize_steps [OF rs nrs]]
  show ?thesis
  proof (cases "np \<and> c (JObj ?tA)")
    case False
    with first have T1: "T1 = JObj ?tA" by auto
    from False show ?thesis
      unfolding T1 normalize_steps [OF gA nrs1] fixA by auto
  next
    case True
    with first obtain ps ps1 where
      ps: "dict_get ?tA ''Parameters'' (JObj []) = JObj ps"
      and loop: "normalize_parameters_loop (json_dumps (JObj rs1)) ps = Inr ps1"
      and T1: "T1 = JObj (set_entry ''Parameters'' ps1 ?tA)"
      by (auto split: json.splits sum.splits)
    let ?tP = "set_entry ''Parameters'' ps1 ?tA"
    have gP: "dict_get ?tP RESOURCES_KEY (JObj []) = JObj rs1"
      using gA by (simp add: set_entry_get_other key_defs)
    have fixP: "set_entry RESOURCES_KEY rs1 ?tP = ?tP"
      by (rule set_entry_again [OF gP])
    have absentP: "map_of ?tA ''Parameters'' = None \<longrightarrow> ps1 = []"
    proof
      assume "map_of ?tA ''Parameters'' = None"
      with ps have "ps = []" by (simp add: dict_get_def)
      with loop show "ps1 = []" by simp
    qed
    have gPP: "dict_get ?tP ''Parameters'' (JObj []) = JObj ps1"
      by (rule set_entry_get [OF ps absentP])
    have fixPP: "set_entry ''Parameters'' ps1 ?tP = ?tP"
      by (rule set_entry_again [OF gPP])
    from normalize_parameters_loop_idem [OF loop]
    have loop1: "normalize_parameters_loop (json_dumps (JObj rs1)) ps1 = Inr ps1" .
    show ?thesis
      unfolding T1 normalize_steps [OF gP nrs1] fixP gPP
      by (simp add: loop1 fixPP del: json_dumps.simps)
  qed
qed

subsection \<open>The examples\<close>

lemma ex_siblings_run:
  "normalize is_cdk_never ex_siblings False = Inr (ex_siblings_normalized, [])"
  by (simp add: ex_siblings_def ex_siblings_normalized_def ex_siblings_fn_def
      ex_siblings_fn_normalized_def eval_defs)


lemma ex_cdk_rewrite_run:
  "normalize is_cdk_always ex_cdk False = Inr (ex_cdk_rewritten, [])"
  by code_simp

lemma ex_cdk_run:
  "normalize is_cdk_always ex_cdk True = Inr (ex_cdk_normalized, [])"
  by code_simp

section \<open>Property substitution\<close>

text \<open>
  A resource that is not marked as normalized, has a non-empty locator and a non-empty
  asset path, and holds a \<open>Properties\<close> mapping: after \<open>normalize\<close>, the segments of the
  locator lead through \<open>Properties\<close> to the asset path.
\<close>

lemma normalize_reaches_asset_path:
  assumes "normalize c T np = Inr (T', logs)"
    and "map_of (template_resources T) lid = Some res"
    and "\<not> marked_normalized res"
    and "locator_of res = JStr pk" and "pk \<noteq> []"
    and "truthy (asset_path_of lid res)"
    and "properties_of res = Some (JObj p)"
  shows "\<exists>res' p'. map_of (template_resources T') lid = Some res'
           \<and> properties_of res' = Some (JObj p')
           \<and> follow (split_on CHR ''.'' pk) (JObj p') = Some (asset_path_of lid res)"
proof -
  from assms(1,2) obtain res' l where
    nr: "normalize_resource lid res = Inr (res', l)"
    and at: "map_of (template_resources T') lid = Some res'"
    by (rule normalize_resource_at)
  from assms(4,5) have loc: "truthy (locator_of res)" by simp
  from normalize_resource_rewrite [OF nr assms(3) loc assms(6)] assms(4,7)
  have "properties_of res' =
      Some (JObj (set_nested (split_on CHR ''.'' pk) (asset_path_of lid res) p))"
    by auto
  with at follow_set_nested [OF split_on_nonempty] show ?thesis by blast
qed

text \<open>
  C1.  The same is claimed for a resource without \<open>Properties\<close>, which would be created.
  The code writes into a dict that the resource never receives: after \<open>normalize\<close> the
  resource of \<open>ex_no_properties\<close> still has no \<open>Properties\<close>, and is marked as normalized.
\<close>

theorem normalize_absent_properties:
  "normalize is_cdk_never ex_no_properties False = Inr (ex_no_properties_normalized, [])
   \<and> map_of (template_resources ex_no_properties_normalized) ''Fn''
        = Some (JObj [(''Type'', JStr ''AWS::Lambda::Function''),
                      (''Metadata'', JObj [(''aws:asset:path'', JStr ''assets/fn.zip''),
                                           (''aws:asset:property'', JStr ''Code.S3Key''),
                                           (''SamNormalized'', JBool True)])])
   \<and> properties_of (JObj [(''Type'', JStr ''AWS::Lambda::Function''),
                           (''Metadata'', JObj [(''aws:asset:path'', JStr ''assets/fn.zip''),
                                                (''aws:asset:property'', JStr ''Code.S3Key''),
                                                (''SamNormalized'', JBool True)])]) = None"
  by (simp add: ex_no_properties_def ex_no_properties_normalized_def is_cdk_never_def eval_defs)

text \<open>
  C8.  During property substitution every intermediate segment is overwritten with a fresh
  mapping.  For a resource that is not marked as normalized, whose locator has at least two
  segments \<open>k.k'...\<close>, with a non-empty asset path and a \<open>Properties\<close> mapping: after
  \<open>normalize\<close>, \<open>Properties[k]\<close> is a mapping whose only key is \<open>k'\<close>, and below it there is
  nothing but the rest of the path ending in the asset path; whatever else \<open>Properties[k]\<close>
  held before is gone.
\<close>

theorem normalize_overwrites_intermediate:
  assumes "normalize c T np = Inr (T', logs)"
    and "map_of (template_resources T) lid = Some res"
    and "\<not> marked_normalized res"
    and "locator_of res = JStr pk"
    and "split_on CHR ''.'' pk = k # k' # ks"
    and "truthy (asset_path_of lid res)"
    and "properties_of res = Some (JObj p)"
  shows "\<exists>res' p' d. map_of (template_resources T') lid = Some res'
           \<and> properties_of res' = Some (JObj p')
           \<and> map_of p' k = Some (JObj d)
           \<and> map fst d = [k']
           \<and> only_path (k' # ks) (asset_path_of lid res) (JObj d)"
proof -
  from assms(1,2) obtain res' l where
    nr: "normalize_resource lid res = Inr (res', l)"
    and at: "map_of (template_resources T') lid = Some res'"
    by (rule normalize_resource_at)
  from assms(5) have "pk \<noteq> []" by auto
  with assms(4) have loc: "truthy (locator_of res)" by simp
  from normalize_resource_rewrite [OF nr assms(3) loc assms(6)] assms(4,5,7)
  have p': "properties_of res' =
      Some (JObj (set_nested (k # k' # ks) (asset_path_of lid res) p))"
    by auto
  have first: "map_of (set_nested (k # k' # ks) (asset_path_of lid res) p) k
      = Some (JObj (set_nested (k' # ks) (asset_path_of lid res) []))"
    by (rule set_nested_first) simp
  have op: "only_path (k' # ks) (asset_path_of lid res)
      (JObj (set_nested (k' # ks) (asset_path_of lid res) []))"
    by (rule only_path_set_nested) simp
  have keys: "map fst (set_nested (k' # ks) (asset_path_of lid res) []) = [k']"
    by (cases ks) simp_all
  show ?thesis
    by (intro exI conjI) (rule at, rule p', rule first, rule keys, rule op)
qed

text \<open>In \<open>ex_siblings\<close> the key \<open>S3Bucket\<close> beside \<open>S3Key\<close> is lost.\<close>

theorem normalize_overwrites_intermediate_witness:
  "\<exists>res' p' d. map_of (template_resources ex_siblings_normalized) ''Fn'' = Some res'
           \<and> properties_of res' = Some (JObj p')
           \<and> map_of p' ''Code'' = Some (JObj d)
           \<and> map fst d = [''S3Key'']
           \<and> only_path [''S3Key''] (JStr ''assets/fn.zip'') (JObj d)"
proof -
  have h2: "map_of (template_resources ex_siblings) ''Fn'' = Some ex_siblings_fn"
    by (simp add: ex_siblings_def eval_defs)
  have h3: "\<not> marked_normalized ex_siblings_fn" by (simp add: ex_siblings_fn_def eval_defs)
  have h4: "locator_of ex_siblings_fn = JStr ''Code.S3Key''"
    by (simp add: ex_siblings_fn_def eval_defs)
  have h5: "split_on CHR ''.'' ''Code.S3Key'' = ''Code'' # ''S3Key'' # []" by simp
  have ap: "asset_path_of ''Fn'' ex_siblings_fn = JStr ''assets/fn.zip''"
    by (simp add: ex_siblings_fn_def eval_defs)
  have h6: "truthy (asset_path_of ''Fn'' ex_siblings_fn)" by (simp add: ap)
  have h7: "properties_of ex_siblings_fn =
      Some (JObj [(''Code'', JObj [(''S3Bucket'', JStr ''b''), (''S3Key'', JStr ''old'')]),
                  (''Handler'', JStr ''app.handler'')])"
    by (simp add: ex_siblings_fn_def eval_defs)
  from normalize_overwrites_intermediate [OF ex_siblings_run h2 h3 h4 h5 h6 h7]
  show ?thesis unfolding ap .
qed

section \<open>Image assets\<close>




text \<open>
  C3.  \<open>normalize\<close> is claimed never to raise, also for a resource with locator
  \<open>Code.ImageUri\<close> and no dockerfile path.  There \<open>Path(metadata.get(key), "")\<close> receives
  \<open>None\<close> and raises \<open>TypeError\<close>: on \<open>ex_image_no_dockerfile\<close> the call ends with that
  exception, and the function after the image function is never reached.
\<close>

theorem normalize_missing_dockerfile_raises:
  "normalize is_cdk_never ex_image_no_dockerfile False = Inl TypeError"
  by (simp add: ex_image_no_dockerfile_def eval_defs)

section \<open>Exactly one of locator and asset path\<close>

text \<open>
  C9, as the code has it.  For a resource that is not marked as normalized and for which
  exactly one of locator and asset path is present and non-empty, the asset path being the
  lower-cased logical id when the locator is \<open>Code.ImageUri\<close>: \<open>normalize\<close> leaves the
  \<open>Properties\<close> of the resource as they are, logs exactly one record about the resource,
  and leaves the metadata without the normalized marker.  (The logical ids are the keys of
  a dict, hence distinct.)
\<close>

theorem normalize_one_of_two:
  assumes "normalize c T np = Inr (T', logs)"
    and "distinct (map fst (template_resources T))"
    and "map_of (template_resources T) lid = Some res"
    and "\<not> marked_normalized res"
    and "truthy (locator_of res) \<noteq> truthy (asset_path_of lid res)"
  shows "\<exists>res'. map_of (template_resources T') lid = Some res'
           \<and> properties_of res' = properties_of res
           \<and> diagnostics_for lid logs = [(INFO, ignoring_metadata_msg, [lid])]
           \<and> \<not> marked_normalized res'"
proof -
  from assms(1,3) obtain res' l where
    nr: "normalize_resource lid res = Inr (res', l)"
    and at: "map_of (template_resources T') lid = Some res'"
    by (rule normalize_resource_at)
  from normalize_resources_diagnostics
    [OF normalize_template_resources [OF assms(1)] assms(2,3) nr]
  have dl: "diagnostics_for lid logs = l" .
  from nr obtain r md r1 md1 where s: "res = JObj r" "dict_get r METADATA_KEY (JObj []) = JObj md"
    "metadata_of res = md"
    "(if \<not> truthy (dict_get md SAM_IS_NORMALIZED (JBool False))
      then asset_rewrite lid r md else Inr (r, md, [])) = Inr (r1, md1, l)"
    "res' = JObj (if map_of r METADATA_KEY = None then r1
                  else AList.update METADATA_KEY (JObj (skip_build_pass md1)) r1)"
    by (rule normalize_resource_result)
  from assms(4) have um: "\<not> truthy (dict_get md SAM_IS_NORMALIZED (JBool False))"
    unfolding marked_normalized_def s(3) .
  with s(4) have ar: "asset_rewrite lid r md = Inr (r1, md1, l)" by simp
  from assms(5) have one: "truthy (dict_get md ASSET_PROPERTY_METADATA_KEY JNull)
        \<noteq> truthy (if dict_get md ASSET_PROPERTY_METADATA_KEY JNull = JStr IMAGE_ASSET_PROPERTY
                     then JStr (lower lid) else dict_get md ASSET_PATH_METADATA_KEY JNull)"
    unfolding asset_path_of_def locator_of_def s(3) .
  from asset_rewrite_one [OF ar one] have
    r1: "r1 = r" and l: "l = [(INFO, ignoring_metadata_msg, [lid])]"
    and n: "dict_get md1 SAM_IS_NORMALIZED (JBool False) = dict_get md SAM_IS_NORMALIZED (JBool False)"
    by simp_all
  have "md \<noteq> []"
  proof
    assume "md = []"
    with one show False by (simp add: dict_get_def key_defs)
  qed
  from metadata_present [OF s(2) this] s(5) r1
  have res': "res' = JObj (AList.update METADATA_KEY (JObj (skip_build_pass md1)) r)" by auto
  have p: "properties_of res' = properties_of res"
    unfolding res' s(1) by (rule properties_of_update_metadata)
  have m: "\<not> marked_normalized res'"
    using um n unfolding res' marked_normalized_def metadata_of_update
    by (simp add: skip_build_pass_get key_defs)
  from at p dl l m show ?thesis by blast
qed

text \<open>The function of \<open>ex_locator_only\<close>; the call leaves that template as it is.\<close>

theorem normalize_one_of_two_witness:
  "\<exists>res'. map_of (template_resources ex_locator_only) ''Fn'' = Some res'
           \<and> properties_of res' = properties_of ex_locator_only_fn
           \<and> diagnostics_for ''Fn'' [(INFO, ignoring_metadata_msg, [''Fn''])]
               = [(INFO, ignoring_metadata_msg, [''Fn''])]
           \<and> \<not> marked_normalized res'"
proof -
  have h1: "normalize is_cdk_never ex_locator_only False
      = Inr (ex_locator_only, [(INFO, ignoring_metadata_msg, [''Fn''])])"
    by (simp add: ex_locator_only_def ex_locator_only_fn_def is_cdk_never_def eval_defs)
  have h2: "distinct (map fst (template_resources ex_locator_only))"
    by (simp add: ex_locator_only_def eval_defs)
  have h3: "map_of (template_resources ex_locator_only) ''Fn'' = Some ex_locator_only_fn"
    by (simp add: ex_locator_only_def eval_defs)
  have h4: "\<not> marked_normalized ex_locator_only_fn"
    by (simp add: ex_locator_only_fn_def eval_defs)
  have h5: "truthy (locator_of ex_locator_only_fn)
      \<noteq> truthy (asset_path_of ''Fn'' ex_locator_only_fn)"
    by (simp add: ex_locator_only_fn_def eval_defs)
  from normalize_one_of_two [OF h1 h2 h3 h4 h5] show ?thesis .
qed

text \<open>
  With the asset path read from the metadata alone the statement fails: an image function
  whose metadata holds the locator and no asset path is rewritten and marked, and nothing
  is logged.
\<close>

theorem normalize_locator_only_image_counterexample:
  "locator_of ex_locator_only_image_fn = JStr ''Code.ImageUri''
   \<and> map_of (metadata_of ex_locator_only_image_fn) ASSET_PATH_METADATA_KEY = None
   \<and> normalize is_cdk_never ex_locator_only_image False
        = Inr (ex_locator_only_image_normalized, [])
   \<and> properties_of ex_locator_only_image_fn_normalized
        \<noteq> properties_of ex_locator_only_image_fn
   \<and> marked_normalized ex_locator_only_image_fn_normalized"
  by (simp add: ex_locator_only_image_def ex_locator_only_image_normalized_def
      ex_locator_only_image_fn_def ex_locator_only_image_fn_normalized_def
      is_cdk_never_def eval_defs path_defs lower_MyFn)

text \<open>A resource that is already marked is skipped: nothing is logged for it.\<close>

lemma normalize_marked_locator_only:
  "normalize is_cdk_never ex_marked_locator_only False = Inr (ex_marked_locator_only, [])"
  by (simp add: ex_marked_locator_only_def is_cdk_never_def eval_defs)

section \<open>Idempotence\<close>

text \<open>
  C2.  When a call of \<open>normalize\<close> has returned, a second call on the resulting template
  returns as well, and for every resource that had a non-empty locator and a non-empty
  asset path the \<open>Properties\<close> after the second call are those after the first: the first
  call leaves such a resource marked as normalized, and a marked resource is skipped.
\<close>

theorem normalize_idempotent:
  assumes "normalize c T np = Inr (T1, logs1)"
    and "map_of (template_resources T) lid = Some res"
    and "truthy (locator_of res)"
    and "truthy (asset_path_of lid res)"
  shows "\<exists>T2 logs2 res1 res2. normalize c T1 np = Inr (T2, logs2)
     \<and> map_of (template_resources T1) lid = Some res1
     \<and> map_of (template_resources T2) lid = Some res2
     \<and> properties_of res2 = properties_of res1
     \<and> marked_normalized res1"
proof -
  from normalize_twice [OF assms(1)] obtain logs2 where
    second: "normalize c T1 np = Inr (T1, logs2)" by blast
  from assms(1,2) obtain res1 l where
    nr: "normalize_resource lid res = Inr (res1, l)"
    and at: "map_of (template_resources T1) lid = Some res1"
    by (rule normalize_resource_at)
  have "marked_normalized res1"
  proof (cases "marked_normalized res")
    case True
    from normalize_resource_marked [OF nr True] show ?thesis by simp
  next
    case False
    from normalize_resource_rewrite [OF nr False assms(3,4)] show ?thesis by blast
  qed
  with second at show ?thesis by blast
qed

text \<open>The function of \<open>ex_siblings\<close>.\<close>

theorem normalize_idempotent_witness:
  "\<exists>T2 logs2 res1 res2. normalize is_cdk_never ex_siblings_normalized False = Inr (T2, logs2)
     \<and> map_of (template_resources ex_siblings_normalized) ''Fn'' = Some res1
     \<and> map_of (template_resources T2) ''Fn'' = Some res2
     \<and> properties_of res2 = properties_of res1
     \<and> marked_normalized res1"
proof -
  have h2: "map_of (template_resources ex_siblings) ''Fn'' = Some ex_siblings_fn"
    by (simp add: ex_siblings_def eval_defs)
  have h3: "truthy (locator_of ex_siblings_fn)"
    by (simp add: ex_siblings_fn_def eval_defs)
  have h4: "truthy (asset_path_of ''Fn'' ex_siblings_fn)"
    by (simp add: ex_siblings_fn_def eval_defs)
  show ?thesis by (rule normalize_idempotent [OF ex_siblings_run h2 h3 h4])
qed

section \<open>Parameter defaults\<close>

subsection \<open>Substrings\<close>

lemma contains_prefix: "contains (sub @ q) sub"
proof (cases "sub @ q")
  case Nil
  then show ?thesis by simp
next
  case (Cons a l)
  have "take (length sub) (sub @ q) = sub" by simp
  then have "take (length sub) (a # l) = sub" unfolding Cons .
  then show ?thesis unfolding Cons by simp
qed

lemma contains_infix: "contains (p @ sub @ q) sub"
proof (induction p)
  case Nil
  show ?case using contains_prefix [of sub q] by simp
next
  case (Cons a p)
  then show ?case by simp
qed

lemma contains_elim: "contains s sub \<Longrightarrow> \<exists>p q. s = p @ sub @ q"
proof (induction s)
  case Nil
  then show ?case by simp
next
  case (Cons x xs)
  show ?case
  proof (cases "take (length sub) (x # xs) = sub")
    case True
    then have "x # xs = [] @ sub @ drop (length sub) (x # xs)"
      by (metis append_Nil append_take_drop_id)
    then show ?thesis by blast
  next
    case False
    with Cons.prems have "contains xs sub" by simp
    from Cons.IH [OF this] obtain p q where "xs = p @ sub @ q" by blast
    then have "x # xs = (x # p) @ sub @ q" by simp
    then show ?thesis by blast
  qed
qed

lemma contains_wrap: "contains s sub \<Longrightarrow> contains (a @ s @ b) sub"
proof -
  assume "contains s sub"
  then obtain p q where "s = p @ sub @ q" by (blast dest: contains_elim)
  then have "a @ s @ b = (a @ p) @ sub @ (q @ b)" by simp
  then show ?thesis by (simp only: contains_infix)
qed

lemma join_member: "x \<in> set xs \<Longrightarrow> \<exists>p q. join sep xs = p @ x @ q"
proof (induction sep xs rule: join.induct)
  case (1 sep)
  then show ?case by simp
next
  case (2 sep y)
  then have "join sep [y] = [] @ x @ []" by simp
  then show ?case by blast
next
  case (3 sep y z zs)
  show ?case
  proof (cases "x = y")
    case True
    then have "join sep (y # z # zs) = [] @ x @ (sep @ join sep (z # zs))" by simp
    then show ?thesis by blast
  next
    case False
    with 3 obtain p q where "join sep (z # zs) = p @ x @ q" by auto
    then have "join sep (y # z # zs) = (y @ sep @ p) @ x @ q" by simp
    then show ?thesis by blast
  qed
qed

lemma contains_join:
  assumes "x \<in> set xs" "contains x sub"
  shows "contains (join sep xs) sub"
proof -
  from join_member [OF assms(1)] obtain p q where "join sep xs = p @ x @ q" by blast
  with contains_wrap [OF assms(2)] show ?thesis by simp
qed

subsection \<open>A reference shows in the serialization\<close>

lemma escape_plain: "plain_char c \<Longrightarrow> escape_char c = [c]"
  by (auto simp add: plain_char_def escape_char_def Let_def)

lemma encode_plain: "list_all plain_char s \<Longrightarrow> concat (map escape_char s) = s"
  by (induction s) (simp_all add: escape_plain)

lemma encode_str_plain:
  "list_all plain_char s \<Longrightarrow> encode_str s = char_of (34::nat) # s @ [char_of (34::nat)]"
  by (simp add: encode_str_def encode_plain)

lemma plain_Ref: "list_all plain_char ''Ref''"
  by code_simp

lemma member_ref:
  assumes "list_all plain_char n"
  shows "encode_str ''Ref'' @ '': '' @ json_dumps (JStr n) = ref_literal n"
  unfolding json_dumps.simps encode_str_plain [OF assms] encode_str_plain [OF plain_Ref]
    ref_literal_def
  by simp

lemma has_ref_dumps:
  shows "list_all plain_char n \<Longrightarrow> has_ref n v \<Longrightarrow> contains (json_dumps v) (ref_literal n)"
    and "list_all plain_char n \<Longrightarrow> has_ref_items n xs
          \<Longrightarrow> \<exists>x\<in>set (dumps_items xs). contains x (ref_literal n)"
    and "list_all plain_char n \<Longrightarrow> has_ref_members n d
          \<Longrightarrow> \<exists>x\<in>set (dumps_members d). contains x (ref_literal n)"
proof (induction n v and n xs and n d rule: has_ref_has_ref_items_has_ref_members.induct)
  case (5 n xs)
  then obtain x where "x \<in> set (dumps_items xs)" "contains x (ref_literal n)" by auto
  from contains_join [OF this] have "contains (join '', '' (dumps_items xs)) (ref_literal n)" .
  from contains_wrap [OF this, of "''[''" "'']''"] show ?case by simp
next
  case (6 n d)
  then obtain x where "x \<in> set (dumps_members d)" "contains x (ref_literal n)" by auto
  from contains_join [OF this] have "contains (join '', '' (dumps_members d)) (ref_literal n)" .
  from contains_wrap [OF this, of "''{''" "''}''"] show ?case by simp
next
  case (8 n x xs)
  then show ?case by auto
next
  case (10 n k v d)
  note plain = "10.prems"(1)
  from "10.prems"(2) consider (here) "k = ''Ref''" "v = JStr n" | (below) "has_ref n v"
    | (later) "has_ref_members n d" by auto
  then show ?case
  proof cases
    case here
    have "encode_str k @ '': '' @ json_dumps v = ref_literal n"
      unfolding here by (rule member_ref [OF plain])
    then have "contains (encode_str k @ '': '' @ json_dumps v) (ref_literal n)"
      using contains_infix [of "[]" "ref_literal n" "[]"] by simp
    then show ?thesis by simp
  next
    case below
    with "10.IH"(1) plain have "contains (json_dumps v) (ref_literal n)" by simp
    from contains_wrap [OF this, of "encode_str k @ '': ''" "[]"] show ?thesis by simp
  next
    case later
    with "10.IH"(2) plain show ?thesis by auto
  qed
qed simp_all

subsection \<open>The parameter pass\<close>

text \<open>
  C5, as the code has it.  Let \<open>normalize\<close> be called with \<open>normalize_parameters\<close> true on a
  template that is detected as synthesized.  A parameter whose name starts with
  \<open>AssetParameters\<close> receives the default \<open>" "\<close> if and only if it had no \<open>Default\<close>, its
  \<open>Type\<close> is \<open>String\<close>, and \<open>"Ref": "<name>"\<close> does not occur in the serialization of the
  resources as the loop over the resources left them; otherwise it stays as it is.  In
  particular a parameter whose name consists of characters that \<open>json.dumps\<close> writes as
  they are, and that is referenced by \<open>{"Ref": "<name>"}\<close> somewhere in the resources as the
  loop left them, stays as it is.
\<close>

theorem normalize_parameter_default:
  assumes "normalize c T False = Inr (TA, logsA)"
    and "c TA"
    and "normalize c T True = Inr (T', logs)"
    and "map_of (template_parameters T) n = Some (JObj pv)"
    and "startswith n ''AssetParameters''"
  shows "map_of (template_parameters T') n =
           Some (JObj (if map_of pv ''Default'' = None
                          \<and> dict_get pv ''Type'' (JStr []) = JStr ''String''
                          \<and> \<not> contains (json_dumps (JObj (template_resources TA))) (ref_literal n)
                       then AList.update ''Default'' (JStr '' '') pv else pv))
     \<and> (list_all plain_char n \<and> has_ref n (JObj (template_resources TA))
          \<longrightarrow> map_of (template_parameters T') n = Some (JObj pv))"
proof -
  from normalize_parameters_loop_lookup [OF normalize_parameters_pass [OF assms(1,2,3)] assms(4)]
  obtain v1 where v1: "normalize_parameter (json_dumps (JObj (template_resources TA))) n (JObj pv)
        = Inr v1"
    and at: "map_of (template_parameters T') n = Some v1" by blast
  from v1 assms(5) have "v1 = JObj (if map_of pv ''Default'' = None
                          \<and> dict_get pv ''Type'' (JStr []) = JStr ''String''
                          \<and> \<not> contains (json_dumps (JObj (template_resources TA))) (ref_literal n)
                       then AList.update ''Default'' (JStr '' '') pv else pv)"
    unfolding normalize_parameter_def by (auto split: if_splits)
  with at have first: "map_of (template_parameters T') n =
           Some (JObj (if map_of pv ''Default'' = None
                          \<and> dict_get pv ''Type'' (JStr []) = JStr ''String''
                          \<and> \<not> contains (json_dumps (JObj (template_resources TA))) (ref_literal n)
                       then AList.update ''Default'' (JStr '' '') pv else pv))" by simp
  have "list_all plain_char n \<and> has_ref n (JObj (template_resources TA))
          \<longrightarrow> map_of (template_parameters T') n = Some (JObj pv)"
  proof
    assume h: "list_all plain_char n \<and> has_ref n (JObj (template_resources TA))"
    from has_ref_dumps(1) [OF conjunct1 [OF h] conjunct2 [OF h]]
    have "contains (json_dumps (JObj (template_resources TA))) (ref_literal n)" .
    with first show "map_of (template_parameters T') n = Some (JObj pv)"
      by (simp del: json_dumps.simps contains.simps)
  qed
  with first show ?thesis by (rule conjI)
qed

text \<open>In \<open>ex_cdk\<close> the first parameter receives the default, the third is still referenced.\<close>

theorem normalize_parameter_default_witness:
  "map_of (template_parameters ex_cdk_normalized) ''AssetParametersFoo''
      = Some (JObj [(''Type'', JStr ''String''), (''Default'', JStr '' '')])
   \<and> map_of (template_parameters ex_cdk_normalized) ''AssetParametersBar''
      = Some (JObj [(''Type'', JStr ''String'')])"
proof -
  have cdk: "is_cdk_always ex_cdk_rewritten" by (simp add: is_cdk_always_def)
  have foo: "map_of (template_parameters ex_cdk) ''AssetParametersFoo''
      = Some (JObj [(''Type'', JStr ''String'')])" by code_simp
  have bar: "map_of (template_parameters ex_cdk) ''AssetParametersBar''
      = Some (JObj [(''Type'', JStr ''String'')])" by code_simp
  have sfoo: "startswith ''AssetParametersFoo'' ''AssetParameters''" by code_simp
  have sbar: "startswith ''AssetParametersBar'' ''AssetParameters''" by code_simp
  have cfoo: "\<not> contains (json_dumps (JObj (template_resources ex_cdk_rewritten)))
      (ref_literal ''AssetParametersFoo'')" by code_simp
  have dfoo: "map_of [(''Type'', JStr ''String'')] ''Default'' = None
      \<and> dict_get [(''Type'', JStr ''String'')] ''Type'' (JStr []) = JStr ''String''"
    by (simp add: dict_get_def)
  have pbar: "list_all plain_char ''AssetParametersBar''
      \<and> has_ref ''AssetParametersBar'' (JObj (template_resources ex_cdk_rewritten))"
    by code_simp
  from normalize_parameter_default [OF ex_cdk_rewrite_run cdk ex_cdk_run foo sfoo, THEN conjunct1]
    cfoo dfoo
  have 1: "map_of (template_parameters ex_cdk_normalized) ''AssetParametersFoo''
      = Some (JObj [(''Type'', JStr ''String''), (''Default'', JStr '' '')])"
    by (simp del: json_dumps.simps contains.simps)
  from normalize_parameter_default [OF ex_cdk_rewrite_run cdk ex_cdk_run bar sbar, THEN conjunct2]
    pbar
  have 2: "map_of (template_parameters ex_cdk_normalized) ''AssetParametersBar''
      = Some (JObj [(''Type'', JStr ''String'')])"
    by blast
  from 1 2 show ?thesis by (rule conjI)
qed

text \<open>
  A reference in the resources of the template as given does not keep the default away:
  the first parameter of \<open>ex_cdk\<close> is referenced under \<open>Code\<close>, which the asset rewrite
  replaces, and the second is still referenced after the rewrite, but the double quote of
  its name is escaped in the serialization.  Both receive the default.
\<close>

theorem normalize_referenced_parameter_counterexample:
  "has_ref ''AssetParametersFoo'' (JObj (template_resources ex_cdk))
   \<and> has_ref ex_quoted_name (JObj (template_resources ex_cdk))
   \<and> has_ref ex_quoted_name (JObj (template_resources ex_cdk_normalized))
   \<and> normalize is_cdk_always ex_cdk True = Inr (ex_cdk_normalized, [])
   \<and> map_of (template_parameters ex_cdk_normalized) ''AssetParametersFoo''
        = Some (JObj [(''Type'', JStr ''String''), (''Default'', JStr '' '')])
   \<and> map_of (template_parameters ex_cdk_normalized) ex_quoted_name
        = Some (JObj [(''Type'', JStr ''String''), (''Default'', JStr '' '')])"
  by code_simp

end
